theory Spec2Isabelle
  imports Main
begin

section \<open>Python strings\<close>

text \<open>
  A Python \<open>str\<close> is modelled as a \<^typ>\<open>string\<close>, a character being one of the first
  256 code points. The case conversions act on the ASCII letters and leave every other
  character alone. (No character outside ASCII has an upper-case form from which the four
  letters \<open>BFPO\<close> could arise in a row, so the prefix test of \<open>_add_address\<close> is not
  affected by this restriction; the patterns of the spreadsheet path are ASCII as well.)
\<close>

definition upper_char :: "char \<Rightarrow> char" where
  "upper_char c =
     (case map_of (zip ''abcdefghijklmnopqrstuvwxyz'' ''ABCDEFGHIJKLMNOPQRSTUVWXYZ'') c of
        Some u \<Rightarrow> u | None \<Rightarrow> c)"

definition lower_char :: "char \<Rightarrow> char" where
  "lower_char c =
     (case map_of (zip ''ABCDEFGHIJKLMNOPQRSTUVWXYZ'' ''abcdefghijklmnopqrstuvwxyz'') c of
        Some l \<Rightarrow> l | None \<Rightarrow> c)"

definition is_cased :: "char \<Rightarrow> bool" where
  "is_cased c = (c \<in> set ''abcdefghijklmnopqrstuvwxyzABCDEFGHIJKLMNOPQRSTUVWXYZ'')"

definition upper :: "string \<Rightarrow> string" where
  "upper s = map upper_char s"

definition lower :: "string \<Rightarrow> string" where
  "lower s = map lower_char s"

text \<open>\<open>str.title()\<close>: a letter that follows a letter is lowered, any other letter is raised.\<close>

fun title_from :: "bool \<Rightarrow> string \<Rightarrow> string" where
  "title_from prev [] = []"
| "title_from prev (c # cs) =
     (if is_cased c then (if prev then lower_char c else upper_char c) # title_from True cs
      else c # title_from False cs)"

definition title :: "string \<Rightarrow> string" where
  "title s = title_from False s"

definition startswith :: "string \<Rightarrow> string \<Rightarrow> bool" where
  "startswith s p = (take (length p) s = p)"

text \<open>\<open>sub in s\<close> on strings.\<close>

fun contains :: "string \<Rightarrow> string \<Rightarrow> bool" where
  "contains [] sub = (sub = [])"
| "contains (c # cs) sub = (startswith (c # cs) sub \<or> contains cs sub)"

text \<open>
  \<open>s.replace(old, new)\<close> for a non-empty \<open>old\<close>: every occurrence, scanning from the left
  without overlap. (The one call of the program has \<open>old = 'BFPO '\<close>.)
\<close>

function replace :: "string \<Rightarrow> string \<Rightarrow> string \<Rightarrow> string" where
  "replace old new [] = []"
| "replace old new (c # cs) =
     (if old \<noteq> [] \<and> startswith (c # cs) old
      then new @ replace old new (drop (length old) (c # cs))
      else c # replace old new cs)"
  by pat_completeness auto
termination
  by (relation "measure (\<lambda>(old, new, s). length s)") auto

text \<open>
  The characters that \<open>str.strip()\<close> removes: those for which \<open>str.isspace()\<close> holds,
  the next-line and no-break space characters among them.
\<close>

definition is_space :: "char \<Rightarrow> bool" where
  "is_space c = (c \<in> set [CHR '' '', CHR 0x09, CHR 0x0A, CHR 0x0B, CHR 0x0C, CHR 0x0D,
                            CHR 0x1C, CHR 0x1D, CHR 0x1E, CHR 0x1F, CHR 0x85, CHR 0xA0])"

definition strip :: "string \<Rightarrow> string" where
  "strip s = rev (dropWhile is_space (rev (dropWhile is_space s)))"

definition is_digit_char :: "char \<Rightarrow> bool" where
  "is_digit_char c = (c \<in> set ''0123456789'')"

text \<open>
  \<open>str.isdigit()\<close> holds of the decimal digits and also of the superscript digits two,
  three and one, which are digits but not decimal.
\<close>

definition is_superscript_digit :: "char \<Rightarrow> bool" where
  "is_superscript_digit c = (c \<in> set [CHR 0xB2, CHR 0xB3, CHR 0xB9])"

definition isdigit :: "string \<Rightarrow> bool" where
  "isdigit s = (s \<noteq> [] \<and> list_all (\<lambda>c. is_digit_char c \<or> is_superscript_digit c) s)"

definition digit_val :: "char \<Rightarrow> int" where
  "digit_val c = (case map_of (zip ''0123456789'' [0, 1, 2, 3, 4, 5, 6, 7, 8, 9]) c of
                    Some d \<Rightarrow> d | None \<Rightarrow> 0)"

text \<open>The number that a string of decimal digits denotes.\<close>

definition int_of_digits :: "string \<Rightarrow> int" where
  "int_of_digits s = foldl (\<lambda>a c. 10 * a + digit_val c) 0 s"

text \<open>Truth value of an \<open>Optional[str]\<close>: \<open>None\<close> and the empty string are false.\<close>

fun truthy :: "string option \<Rightarrow> bool" where
  "truthy None = False"
| "truthy (Some s) = (s \<noteq> [])"


section \<open>Exceptions and printed lines\<close>

text \<open>
  The exceptions the program distinguishes or meets. \<open>KeyError\<close> is a subclass of
  \<open>LookupError\<close>; \<open>ValueError\<close> is what \<open>int\<close> raises, \<open>ExpatError\<close> what the XML
  parser raises; everything else an external call may raise is \<open>OtherException\<close>.
\<close>

datatype pyexc = KeyError | AttributeError | LookupError | ValueError | ExpatError | OtherException

text \<open>
  \<open>int(s)\<close>, as far as the program calls it, which is under \<open>isdigit\<close>: a string of
  decimal digits is read as a number, unless it has more digits than the interpreter
  converts (4300 by default); a string with a superscript digit is refused.
\<close>

definition py_int :: "string \<Rightarrow> pyexc + int" where
  "py_int s =
     (if s \<noteq> [] \<and> list_all is_digit_char s \<and> length s \<le> 4300 then Inr (int_of_digits s)
      else Inl ValueError)"

text \<open>\<open>except (KeyError, AttributeError)\<close>\<close>

definition caught_KeyError_AttributeError :: "pyexc \<Rightarrow> bool" where
  "caught_KeyError_AttributeError e = (e = KeyError \<or> e = AttributeError)"

text \<open>\<open>except LookupError\<close>\<close>

definition caught_LookupError :: "pyexc \<Rightarrow> bool" where
  "caught_LookupError e = (e = LookupError \<or> e = KeyError)"

text \<open>
  What the program prints, as far as it reports a problem: the text of a
  \<open>Warning:\<close> line, an error line with the exception it names, the notice that a given
  spreadsheet file does not exist, and the notice that the spreadsheet is skipped. The
  banner and progress lines are left out, and so is the error line printed just before an
  exception ends the run: the result is then the exception.
\<close>

datatype line =
    Warning string
  | ErrorDownloading pyexc
  | ErrorParsing pyexc
  | FileNotFound string
  | SkippingFcdo


section \<open>CountryCodeResolver\<close>

text \<open>
  The package \<open>pycountry\<close> is not part of the program; its four entry points that the
  program calls are parameters. A call returns a country object, \<open>None\<close>, or raises.
  Of a country object only \<open>alpha_2\<close> is read.
\<close>

record country =
  alpha_2 :: string

record pycountry =
  get_name :: "string \<Rightarrow> pyexc + country option"
  get_common_name :: "string \<Rightarrow> pyexc + country option"
  get_alpha_2 :: "string \<Rightarrow> pyexc + country option"
  search_fuzzy :: "string \<Rightarrow> pyexc + country list"

definition SPECIAL_CASES :: "(string \<times> string) list" where
  "SPECIAL_CASES =
     [(''Holland'', ''NL''),
      (''USA'', ''US''),
      (''Turkey'', ''TR''),
      (''Falklands'', ''FK''),
      (''Ascension'', ''AC''),
      (''British Indian Ocean Territory'', ''IO''),
      (''Africa'', ''AF'')]"

text \<open>
  One guarded lookup of \<open>get_country_code\<close>:
  \<^verbatim>\<open>try: country = get(...); if country: return country.alpha_2
except (KeyError, AttributeError): pass\<close>
  \<open>Inr (Some code)\<close> is the return, \<open>Inr None\<close> falls through to the next step, \<open>Inl e\<close>
  is an exception that is not caught.
\<close>

definition try_get :: "pyexc + country option \<Rightarrow> pyexc + string option" where
  "try_get r =
     (case r of
        Inr (Some c) \<Rightarrow> Inr (Some (alpha_2 c))
      | Inr None \<Rightarrow> Inr None
      | Inl e \<Rightarrow> if caught_KeyError_AttributeError e then Inr None else Inl e)"

text \<open>
  \<^verbatim>\<open>try: countries = search_fuzzy(name); if countries: return countries[0].alpha_2
except LookupError: pass\<close>
\<close>

definition try_fuzzy :: "pyexc + country list \<Rightarrow> pyexc + string option" where
  "try_fuzzy r =
     (case r of
        Inr (c # cs) \<Rightarrow> Inr (Some (alpha_2 c))
      | Inr [] \<Rightarrow> Inr None
      | Inl e \<Rightarrow> if caught_LookupError e then Inr None else Inl e)"

fun try_variations :: "pycountry \<Rightarrow> string list \<Rightarrow> pyexc + string option" where
  "try_variations lib [] = Inr None"
| "try_variations lib (v # vs) =
     (case try_get (get_common_name lib v) of
        Inl e \<Rightarrow> Inl e
      | Inr (Some code) \<Rightarrow> Inr (Some code)
      | Inr None \<Rightarrow> try_variations lib vs)"

definition unmapped_warning :: "string \<Rightarrow> line" where
  "unmapped_warning country_name =
     Warning (''Could not map country '' @ [CHR 0x27] @ country_name @ [CHR 0x27] @ '' to ISO code'')"

text \<open>The result is the returned value together with the lines printed on the way.\<close>

definition get_country_code :: "pycountry \<Rightarrow> string \<Rightarrow> pyexc + (string option \<times> line list)" where
  "get_country_code lib country_name =
     (if country_name = [] then Inr (None, [])
      else case map_of SPECIAL_CASES country_name of
        Some code \<Rightarrow> Inr (Some code, [])
      | None \<Rightarrow>
          (case try_get (get_name lib country_name) of
             Inl e \<Rightarrow> Inl e
           | Inr (Some code) \<Rightarrow> Inr (Some code, [])
           | Inr None \<Rightarrow>
               (case try_fuzzy (search_fuzzy lib country_name) of
                  Inl e \<Rightarrow> Inl e
                | Inr (Some code) \<Rightarrow> Inr (Some code, [])
                | Inr None \<Rightarrow>
                    (case try_variations lib
                            [upper country_name, lower country_name, title country_name] of
                       Inl e \<Rightarrow> Inl e
                     | Inr (Some code) \<Rightarrow> Inr (Some code, [])
                     | Inr None \<Rightarrow> Inr (None, [unmapped_warning country_name])))))"

text \<open>
  The entry points keep to what the code is prepared for: a lookup raises nothing but
  \<open>KeyError\<close> or \<open>AttributeError\<close>, the fuzzy search nothing but a \<open>LookupError\<close>.
\<close>

definition well_behaved :: "pycountry \<Rightarrow> bool" where
  "well_behaved lib =
     (\<forall>v e. (get_name lib v = Inl e \<longrightarrow> caught_KeyError_AttributeError e)
          \<and> (get_common_name lib v = Inl e \<longrightarrow> caught_KeyError_AttributeError e)
          \<and> (get_alpha_2 lib v = Inl e \<longrightarrow> caught_KeyError_AttributeError e)
          \<and> (search_fuzzy lib v = Inl e \<longrightarrow> caught_LookupError e))"

text \<open>
  The resolution order in the words of the specification: the override table, the exact
  name, the top candidate of the fuzzy search, then the upper, lower and title case
  against the common names. The first step that matches decides; when none does, the
  warning is printed and the result is absent.
\<close>

fun first_match :: "(pyexc + string option) list \<Rightarrow> pyexc + string option" where
  "first_match [] = Inr None"
| "first_match (Inr (Some code) # steps) = Inr (Some code)"
| "first_match (Inr None # steps) = first_match steps"
| "first_match (Inl e # steps) = Inl e"

definition resolution_steps :: "pycountry \<Rightarrow> string \<Rightarrow> (pyexc + string option) list" where
  "resolution_steps lib country_name =
     [Inr (map_of SPECIAL_CASES country_name),
      try_get (get_name lib country_name),
      try_fuzzy (search_fuzzy lib country_name),
      try_get (get_common_name lib (upper country_name)),
      try_get (get_common_name lib (lower country_name)),
      try_get (get_common_name lib (title country_name))]"

definition resolve_in_order :: "pycountry \<Rightarrow> string \<Rightarrow> pyexc + (string option \<times> line list)" where
  "resolve_in_order lib country_name =
     (case first_match (resolution_steps lib country_name) of
        Inl e \<Rightarrow> Inl e
      | Inr (Some code) \<Rightarrow> Inr (Some code, [])
      | Inr None \<Rightarrow> Inr (None, [unmapped_warning country_name]))"

text \<open>
  \<open>validate_country_code\<close>: the value that \<open>get\<close> returns is not looked at; only an
  exception makes the answer \<open>False\<close>.
\<close>

definition validate_country_code :: "pycountry \<Rightarrow> string \<Rightarrow> pyexc + bool" where
  "validate_country_code lib code =
     (if code = [] \<or> length code \<noteq> 2 then Inr False
      else if code \<in> set (map snd SPECIAL_CASES) then Inr True
      else case get_alpha_2 lib (upper code) of
             Inr r \<Rightarrow> Inr True
           | Inl e \<Rightarrow> if caught_KeyError_AttributeError e then Inr False else Inl e)"


section \<open>BFPOScraperSimple: the normalizer\<close>

text \<open>An address is the dictionary that \<open>_add_address\<close> builds.\<close>

type_synonym address = "string \<rightharpoonup> string"

record scraper =
  addresses :: "address list"
  stdout :: "line list"

definition init_scraper :: scraper where
  "init_scraper = \<lparr>addresses = [], stdout = []\<rparr>"

text \<open>
  The first statement of \<open>_add_address\<close>: the number is prefixed unless its upper-cased
  form already starts with \<open>BFPO\<close>; the number itself is not changed otherwise.
\<close>

definition prefix_bfpo :: "string \<Rightarrow> string" where
  "prefix_bfpo bfpo_num =
     (if \<not> startswith (upper bfpo_num) ''BFPO'' then ''BFPO '' @ bfpo_num else bfpo_num)"

text \<open>\<open>if v: address[k] = v\<close>\<close>

definition set_if :: "bool \<Rightarrow> string \<Rightarrow> string option \<Rightarrow> address \<Rightarrow> address" where
  "set_if b k v a = (if b then a(k := v) else a)"

text \<open>
  \<open>_add_address\<close>: the record is appended to the collection; what the resolver prints
  goes to the output. An exception of the resolver leaves the call before anything is
  appended.
\<close>

definition add_address ::
  "pycountry \<Rightarrow> scraper \<Rightarrow> string \<Rightarrow> string \<Rightarrow> string option \<Rightarrow> string option \<Rightarrow> string
     \<Rightarrow> string option \<Rightarrow> pyexc + scraper" where
  "add_address lib st bfpo_num location postcode country bfpo_type box_num =
     (let address0 = [''BfpoNum'' \<mapsto> prefix_bfpo bfpo_num, ''Loc'' \<mapsto> location,
                      ''Type'' \<mapsto> bfpo_type];
          address1 = set_if (truthy box_num) ''BoxNum'' box_num address0;
          address2 = set_if (truthy postcode) ''PstCd'' postcode address1
      in if truthy country then
           (case get_country_code lib (the country) of
              Inl e \<Rightarrow> Inl e
            | Inr (country_code, printed) \<Rightarrow>
                Inr \<lparr>addresses = addresses st @
                       [set_if (truthy country_code) ''CtryCd'' country_code
                          (address2(''Ctry'' := country))],
                     stdout = stdout st @ printed\<rparr>)
         else Inr \<lparr>addresses = addresses st @ [address2], stdout = stdout st\<rparr>)"

text \<open>
  The detachment table: \<open>Location | Box number\<close>. Every row is filed under BFPO 105 in
  Germany with the one postcode.
\<close>

definition ISOLATED_DETACHMENT_POSTCODE :: string where
  "ISOLATED_DETACHMENT_POSTCODE = ''BF1 0AX''"


section \<open>The GOV.UK page\<close>

text \<open>
  The parsed page is seen through the three calls the program makes on it: the search for a
  section's heading (by id, then by its text), \<open>find_next('table')\<close> from the heading, and
  the stripped cell texts of the table's \<open>tr\<close> elements, the header row included.
\<close>

datatype page_section =
    Germany | UK | Europe | World | Ships | NavalParties | Operations | Exercises
  | IsolatedDetachments

datatype html_section = HeadingNotFound | TableNotFound | Table "string list list"

type_synonym soup = "page_section \<Rightarrow> html_section"

definition parse_table_rows :: "string list list \<Rightarrow> string list list" where
  "parse_table_rows table = filter (\<lambda>cells. cells \<noteq> []) (tl table)"

text \<open>\<open>for row in rows: ...\<close> with a body that may raise.\<close>

fun for_rows ::
  "(scraper \<Rightarrow> string list \<Rightarrow> pyexc + scraper) \<Rightarrow> scraper \<Rightarrow> string list list
     \<Rightarrow> pyexc + scraper" where
  "for_rows body st [] = Inr st"
| "for_rows body st (row # rows) =
     (case body st row of Inl e \<Rightarrow> Inl e | Inr st' \<Rightarrow> for_rows body st' rows)"

text \<open>The frame the nine section parsers share: heading, table, rows.\<close>

definition parse_section ::
  "soup \<Rightarrow> page_section \<Rightarrow> string \<Rightarrow> (scraper \<Rightarrow> string list \<Rightarrow> pyexc + scraper) \<Rightarrow> scraper
     \<Rightarrow> pyexc + scraper" where
  "parse_section page sec what body st =
     (case page sec of
        HeadingNotFound \<Rightarrow>
          Inr (st\<lparr>stdout := stdout st @ [Warning (''Could not find '' @ what @ '' section'')]\<rparr>)
      | TableNotFound \<Rightarrow> Inr st
      | Table table \<Rightarrow> for_rows body st (parse_table_rows table))"

definition parse_germany_locations :: "pycountry \<Rightarrow> soup \<Rightarrow> scraper \<Rightarrow> pyexc + scraper" where
  "parse_germany_locations lib page =
     parse_section page Germany ''Germany BFPO locations''
       (\<lambda>st row. if length row \<ge> 3
          then add_address lib st (row ! 1) (row ! 0) (Some (row ! 2)) (Some ''Germany'') ''static'' None
          else Inr st)"

definition parse_uk_locations :: "pycountry \<Rightarrow> soup \<Rightarrow> scraper \<Rightarrow> pyexc + scraper" where
  "parse_uk_locations lib page =
     parse_section page UK ''UK BFPO locations''
       (\<lambda>st row. if length row \<ge> 3
          then add_address lib st (row ! 1) (row ! 0) (Some (row ! 2)) (Some ''United Kingdom'')
                 ''static'' None
          else Inr st)"

definition parse_europe_locations :: "pycountry \<Rightarrow> soup \<Rightarrow> scraper \<Rightarrow> pyexc + scraper" where
  "parse_europe_locations lib page =
     parse_section page Europe ''Europe BFPO locations''
       (\<lambda>st row. if length row \<ge> 4
          then add_address lib st (row ! 1) (row ! 0) (Some (row ! 2)) (Some (row ! 3)) ''static'' None
          else Inr st)"

definition parse_world_locations :: "pycountry \<Rightarrow> soup \<Rightarrow> scraper \<Rightarrow> pyexc + scraper" where
  "parse_world_locations lib page =
     parse_section page World ''World BFPO locations''
       (\<lambda>st row. if length row \<ge> 4
          then add_address lib st (row ! 1) (row ! 0) (Some (row ! 2)) (Some (row ! 3)) ''static'' None
          else Inr st)"

definition parse_ships :: "pycountry \<Rightarrow> soup \<Rightarrow> scraper \<Rightarrow> pyexc + scraper" where
  "parse_ships lib page =
     parse_section page Ships ''HM Ships''
       (\<lambda>st row. if length row \<ge> 3
          then add_address lib st (row ! 1) (row ! 0) (Some (row ! 2)) None ''ship'' None
          else Inr st)"

text \<open>The country that \<open>_parse_naval_parties\<close> reads off the location of a row.\<close>

definition naval_party_country :: "string \<Rightarrow> string option" where
  "naval_party_country location =
     (if contains location ''Diego Garcia'' then Some ''British Indian Ocean Territory''
      else if contains location ''Ottawa'' then Some ''Canada''
      else if contains location ''Singapore'' then Some ''Singapore''
      else if contains location ''Den Helder'' then Some ''Netherlands''
      else if contains location ''Falklands'' then Some ''Falklands''
      else None)"

definition parse_naval_parties :: "pycountry \<Rightarrow> soup \<Rightarrow> scraper \<Rightarrow> pyexc + scraper" where
  "parse_naval_parties lib page =
     parse_section page NavalParties ''Naval parties''
       (\<lambda>st row. if length row \<ge> 3
          then add_address lib st (row ! 1) (row ! 0) (Some (row ! 2))
                 (naval_party_country (row ! 0)) ''navalparty'' None
          else Inr st)"

definition parse_operations :: "pycountry \<Rightarrow> soup \<Rightarrow> scraper \<Rightarrow> pyexc + scraper" where
  "parse_operations lib page =
     parse_section page Operations ''Operations''
       (\<lambda>st row. if length row \<ge> 3
          then add_address lib st (row ! 1) (row ! 0) (Some (row ! 2)) None ''operation'' None
          else Inr st)"

definition parse_exercises :: "pycountry \<Rightarrow> soup \<Rightarrow> scraper \<Rightarrow> pyexc + scraper" where
  "parse_exercises lib page =
     parse_section page Exercises ''Exercises''
       (\<lambda>st row. if length row \<ge> 3
          then add_address lib st (row ! 1) (row ! 0) (Some (row ! 2)) None ''exercise'' None
          else Inr st)"

definition parse_isolated_detachments :: "pycountry \<Rightarrow> soup \<Rightarrow> scraper \<Rightarrow> pyexc + scraper" where
  "parse_isolated_detachments lib page =
     parse_section page IsolatedDetachments ''Isolated detachments''
       (\<lambda>st row. if length row \<ge> 2
          then add_address lib st ''105'' (row ! 0) (Some ISOLATED_DETACHMENT_POSTCODE)
                 (Some ''Germany'') ''detachment'' (Some (row ! 1))
          else Inr st)"

text \<open>\<open>a; b\<close> where \<open>a\<close> may raise.\<close>

definition and_then ::
  "(scraper \<Rightarrow> pyexc + scraper) \<Rightarrow> (scraper \<Rightarrow> pyexc + scraper) \<Rightarrow> scraper \<Rightarrow> pyexc + scraper" where
  "and_then f g st = (case f st of Inl e \<Rightarrow> Inl e | Inr st' \<Rightarrow> g st')"

definition parse_all_sections :: "pycountry \<Rightarrow> soup \<Rightarrow> scraper \<Rightarrow> pyexc + scraper" where
  "parse_all_sections lib page =
     and_then (parse_germany_locations lib page)
    (and_then (parse_uk_locations lib page)
    (and_then (parse_europe_locations lib page)
    (and_then (parse_world_locations lib page)
    (and_then (parse_ships lib page)
    (and_then (parse_naval_parties lib page)
    (and_then (parse_operations lib page)
    (and_then (parse_exercises lib page)
              (parse_isolated_detachments lib page))))))))"

text \<open>
  \<open>scrape_gov_uk_bfpo\<close>: \<open>fetched\<close> is the outcome of \<open>requests.get\<close>,
  \<open>raise_for_status\<close> and \<open>BeautifulSoup\<close> together. Whatever is raised inside the
  \<open>try\<close> is reported and raised again.
\<close>

definition scrape_gov_uk_bfpo :: "pycountry \<Rightarrow> pyexc + soup \<Rightarrow> scraper \<Rightarrow> pyexc + scraper" where
  "scrape_gov_uk_bfpo lib fetched st =
     (case fetched of
        Inl e \<Rightarrow> Inl e
      | Inr page \<Rightarrow> parse_all_sections lib page st)"


section \<open>The FCDO spreadsheet\<close>

definition country_patterns :: "(string \<times> string) list" where
  "country_patterns =
     [(''ankara'', ''Turkey''),
      (''paris'', ''France''),
      (''berlin'', ''Germany''),
      (''madrid'', ''Spain''),
      (''rome'', ''Italy''),
      (''athens'', ''Greece''),
      (''vienna'', ''Austria''),
      (''brussels'', ''Belgium''),
      (''amsterdam'', ''Netherlands''),
      (''dublin'', ''Ireland''),
      (''lisbon'', ''Portugal''),
      (''copenhagen'', ''Denmark''),
      (''stockholm'', ''Sweden''),
      (''oslo'', ''Norway''),
      (''helsinki'', ''Finland''),
      (''warsaw'', ''Poland''),
      (''prague'', ''Czech Republic''),
      (''budapest'', ''Hungary''),
      (''bucharest'', ''Romania''),
      (''sofia'', ''Bulgaria''),
      (''moscow'', ''Russia''),
      (''ottawa'', ''Canada''),
      (''washington'', ''USA''),
      (''new york'', ''USA''),
      (''los angeles'', ''USA''),
      (''san francisco'', ''USA''),
      (''chicago'', ''USA''),
      (''boston'', ''USA''),
      (''atlanta'', ''USA''),
      (''mexico city'', ''Mexico''),
      (''brasilia'', ''Brazil''),
      (''buenos aires'', ''Argentina''),
      (''santiago'', ''Chile''),
      (''lima'', ''Peru''),
      (''bogota'', ''Colombia''),
      (''tokyo'', ''Japan''),
      (''beijing'', ''China''),
      (''shanghai'', ''China''),
      (''seoul'', ''South Korea''),
      (''delhi'', ''India''),
      (''mumbai'', ''India''),
      (''bangkok'', ''Thailand''),
      (''singapore'', ''Singapore''),
      (''jakarta'', ''Indonesia''),
      (''manila'', ''Philippines''),
      (''kuala lumpur'', ''Malaysia''),
      (''hanoi'', ''Vietnam''),
      (''islamabad'', ''Pakistan''),
      (''kabul'', ''Afghanistan''),
      (''tehran'', ''Iran''),
      (''riyadh'', ''Saudi Arabia''),
      (''dubai'', ''United Arab Emirates''),
      (''abu dhabi'', ''United Arab Emirates''),
      (''canberra'', ''Australia''),
      (''sydney'', ''Australia''),
      (''melbourne'', ''Australia''),
      (''wellington'', ''New Zealand''),
      (''auckland'', ''New Zealand''),
      (''cairo'', ''Egypt''),
      (''nairobi'', ''Kenya''),
      (''johannesburg'', ''South Africa''),
      (''pretoria'', ''South Africa''),
      (''lagos'', ''Nigeria''),
      (''abuja'', ''Nigeria''),
      (''addis ababa'', ''Ethiopia''),
      (''accra'', ''Ghana''),
      (''dar es salaam'', ''Tanzania''),
      (''kampala'', ''Uganda'')]"

text \<open>The first pattern, in the order of the table, that occurs in the lowered location.\<close>

definition infer_country_from_location :: "string \<Rightarrow> string option" where
  "infer_country_from_location location =
     map_option snd (find (\<lambda>(pattern, country). contains (lower location) pattern) country_patterns)"

text \<open>
  The data frame that \<open>pd.read_excel\<close> returns: its column names, and for every row the
  text \<open>str(row[col])\<close> of each cell (\<open>nan\<close> for an empty cell).
\<close>

record dataframe =
  columns :: "string list"
  rows :: "(string \<Rightarrow> string) list"

text \<open>\<open>f'{i}'\<close> for a natural number.\<close>

fun str_nat :: "nat \<Rightarrow> string" where
  "str_nat n =
     (if n < 10 then [''0123456789'' ! n]
      else str_nat (n div 10) @ [''0123456789'' ! (n mod 10)])"

declare str_nat.simps [simp del]

text \<open>The column group without a suffix, if its three columns are there.\<close>

definition first_group :: "string list \<Rightarrow> (string \<times> string \<times> string) list" where
  "first_group cols =
     (if ''Location'' \<in> set cols \<and> ''BFPO No'' \<in> set cols \<and> ''Postcode'' \<in> set cols
      then [(''Location'', ''BFPO No'', ''Postcode'')] else [])"

text \<open>The \<open>while True\<close> loop over \<open>Location.i\<close>, \<open>BFPO No.i\<close>, \<open>Postcode.i\<close>.\<close>

function numbered_groups :: "string list \<Rightarrow> nat \<Rightarrow> (string \<times> string \<times> string) list" where
  "numbered_groups cols i =
     (if (''Location.'' @ str_nat i) \<in> set cols \<and> (''BFPO No.'' @ str_nat i) \<in> set cols
         \<and> (''Postcode.'' @ str_nat i) \<in> set cols
      then (''Location.'' @ str_nat i, ''BFPO No.'' @ str_nat i, ''Postcode.'' @ str_nat i)
             # numbered_groups cols (Suc i)
      else [])"
  by pat_completeness auto
termination
proof (relation "measure (\<lambda>(cols, i). 10 ^ sum_list (map length cols) - i)")
  show "wf (measure (\<lambda>(cols, i). 10 ^ sum_list (map length cols) - i))"
    by simp
next
  fix cols :: "string list" and i :: nat
  assume a: "(''Location.'' @ str_nat i) \<in> set cols \<and> (''BFPO No.'' @ str_nat i) \<in> set cols
         \<and> (''Postcode.'' @ str_nat i) \<in> set cols"
  have bound: "length (str_nat n) \<le> L \<Longrightarrow> n < 10 ^ L" for n L
  proof (induction n arbitrary: L rule: str_nat.induct)
    case (1 n)
    show ?case
    proof (cases "n < 10")
      case True
      from "1.prems" have "1 \<le> L"
        by (subst (asm) str_nat.simps) (simp add: True)
      then have "(10::nat) ^ 1 \<le> 10 ^ L"
        by (intro power_increasing) simp_all
      with True show ?thesis by simp
    next
      case False
      from "1.prems" have len: "Suc (length (str_nat (n div 10))) \<le> L"
        by (subst (asm) str_nat.simps) (simp add: False)
      then obtain K where L: "L = Suc K"
        by (cases L) simp_all
      with len have "length (str_nat (n div 10)) \<le> K" by simp
      with "1.IH" [OF False] have "n div 10 < 10 ^ K" by blast
      then have "n < 10 * 10 ^ K"
        by (simp add: div_less_iff_less_mult)
      with L show ?thesis by simp
    qed
  qed
  from a have "(''Location.'' @ str_nat i) \<in> set cols"
    by blast
  then have "length (''Location.'' @ str_nat i) \<in> length ` set cols"
    by (rule imageI)
  then have "length (''Location.'' @ str_nat i) \<le> sum_list (map length cols)"
    by (intro member_le_sum_list) simp_all
  then have "length (str_nat i) \<le> sum_list (map length cols)"
    by simp
  then have "i < 10 ^ sum_list (map length cols)"
    by (rule bound)
  then show "((cols, Suc i), (cols, i)) \<in> measure (\<lambda>(cols, i). 10 ^ sum_list (map length cols) - i)"
    by simp
qed

declare numbered_groups.simps [simp del]

definition column_groups :: "string list \<Rightarrow> (string \<times> string \<times> string) list" where
  "column_groups cols = first_group cols @ numbered_groups cols 1"

text \<open>
  One column group of one row. The body sits in a \<open>try\<close> whose handler is \<open>continue\<close>, so an
  exception leaves the collection as it was.
\<close>

definition fcdo_cell :: "pycountry \<Rightarrow> (string \<Rightarrow> string) \<Rightarrow> scraper \<Rightarrow> string \<times> string \<times> string \<Rightarrow> scraper" where
  "fcdo_cell lib row st grp =
     (case grp of (loc_col, bfpo_col, post_col) \<Rightarrow>
        let location = strip (row loc_col);
            bfpo_num = strip (row bfpo_col);
            postcode = strip (row post_col)
        in if location = ''nan'' \<or> location = [] \<or> bfpo_num = ''nan'' \<or> bfpo_num = [] then st
           else (case add_address lib st bfpo_num location
                        (if postcode = ''nan'' \<or> postcode = [] then None else Some postcode)
                        (infer_country_from_location location) ''fcdo'' None of
                   Inl e \<Rightarrow> st
                 | Inr st' \<Rightarrow> st'))"

definition fcdo_rows :: "pycountry \<Rightarrow> dataframe \<Rightarrow> scraper \<Rightarrow> scraper" where
  "fcdo_rows lib df st =
     foldl (\<lambda>st1 row. foldl (fcdo_cell lib row) st1 (column_groups (columns df))) st (rows df)"

text \<open>\<open>parse_fcdo_ods\<close>: a failure to read the file is reported and nothing is added.\<close>

definition parse_fcdo_ods :: "pycountry \<Rightarrow> pyexc + dataframe \<Rightarrow> scraper \<Rightarrow> scraper" where
  "parse_fcdo_ods lib read_excel st =
     (case read_excel of
        Inl e \<Rightarrow> st\<lparr>stdout := stdout st @ [ErrorParsing e]\<rparr>
      | Inr df \<Rightarrow> fcdo_rows lib df st)"


section \<open>The output document\<close>

definition get_sort_key :: "address \<Rightarrow> pyexc + int" where
  "get_sort_key addr =
     (case addr ''BfpoNum'' of
        None \<Rightarrow> Inl KeyError
      | Some b \<Rightarrow>
          let bfpo_num = strip (replace ''BFPO '' [] b)
          in if isdigit bfpo_num then py_int bfpo_num else Inr 999)"

fun all_keys :: "address list \<Rightarrow> pyexc + int list" where
  "all_keys [] = Inr []"
| "all_keys (a # as) =
     (case get_sort_key a of
        Inl e \<Rightarrow> Inl e
      | Inr k \<Rightarrow> (case all_keys as of Inl e \<Rightarrow> Inl e | Inr ks \<Rightarrow> Inr (k # ks)))"

text \<open>
  \<open>self.addresses.sort(key=get_sort_key)\<close>: the keys are computed once, then the list is
  sorted on them by a stable sort.
\<close>

definition sort_addresses :: "address list \<Rightarrow> pyexc + address list" where
  "sort_addresses as =
     (case all_keys as of
        Inl e \<Rightarrow> Inl e
      | Inr ks \<Rightarrow> Inr (map snd (sort_key fst (zip ks as))))"

datatype xml = Element string "string option" "xml list" | Comment string

definition header_comment :: "string \<Rightarrow> string" where
  "header_comment today =
     [CHR 0x0A] @ ''BFPO Address Configuration'' @ [CHR 0x0A]
     @ ''Generated from GOV.UK BFPO locations'' @ [CHR 0x0A]
     @ ''Last Updated: '' @ today @ [CHR 0x0A]
     @ ''Created By: Affinis Ltd (Dominic Digby)'' @ [CHR 0x0A]
     @ ''Schema: bfpo_config.xsd'' @ [CHR 0x0A]
     @ ''Country Codes: ISO 3166-1 alpha-2 (via pycountry)'' @ [CHR 0x0A]"

text \<open>\<open>ET.SubElement(addr_elem, k).text = addr[k]\<close> for a key that is there.\<close>

definition field :: "address \<Rightarrow> string \<Rightarrow> xml list" where
  "field addr k = (case addr k of None \<Rightarrow> [] | Some v \<Rightarrow> [Element k (Some v) []])"

definition address_element :: "address \<Rightarrow> pyexc + xml" where
  "address_element addr =
     (if addr ''BfpoNum'' = None \<or> addr ''Loc'' = None \<or> addr ''Type'' = None then Inl KeyError
      else Inr (Element ''BFFO_Address'' None
             (field addr ''BfpoNum''
              @ field addr ''BoxNum''
              @ field addr ''Loc''
              @ field addr ''PstCd''
              @ field addr ''Ctry''
              @ (if truthy (addr ''CtryCd'') then field addr ''CtryCd'' else [])
              @ field addr ''Type'')))"

fun address_elements :: "address list \<Rightarrow> pyexc + xml list" where
  "address_elements [] = Inr []"
| "address_elements (a # as) =
     (case address_element a of
        Inl e \<Rightarrow> Inl e
      | Inr x \<Rightarrow> (case address_elements as of Inl e \<Rightarrow> Inl e | Inr xs \<Rightarrow> Inr (x # xs)))"

text \<open>
  \<open>_write_pretty_xml\<close> serialises the tree with \<open>ET.tostring\<close>, which escapes
  \<open>&\<close>, \<open><\<close> and \<open>>\<close> in a text and writes every other character as it is, parses
  the result again with \<open>minidom.parseString\<close>, and writes the pretty-printed document
  to the file. The parser raises \<open>ExpatError\<close> where the serialised text is not
  well-formed XML: on a character that XML does not allow (the control characters other than
  tab, line feed and carriage return), and on a comment that holds two hyphens in a row or
  ends with a hyphen.
\<close>

definition xml_char :: "char \<Rightarrow> bool" where
  "xml_char c = (c \<in> set [CHR 0x09, CHR 0x0A, CHR 0x0D] \<or> (32 :: nat) \<le> of_char c)"

fun well_formed :: "xml \<Rightarrow> bool" and well_formed_list :: "xml list \<Rightarrow> bool" where
  "well_formed (Comment t) =
     (list_all xml_char t \<and> \<not> contains t ''--'' \<and> \<not> (t \<noteq> [] \<and> last t = CHR ''-''))"
| "well_formed (Element tag text children) =
     ((case text of None \<Rightarrow> True | Some t \<Rightarrow> list_all xml_char t) \<and> well_formed_list children)"
| "well_formed_list [] = True"
| "well_formed_list (x # xs) = (well_formed x \<and> well_formed_list xs)"

text \<open>
  The outcome of \<open>_write_pretty_xml\<close>: \<open>None\<close> when the file is written;
  \<open>file_write\<close> is the outcome of opening and writing the file.
\<close>

definition write_pretty_xml :: "pyexc option \<Rightarrow> xml \<Rightarrow> pyexc option" where
  "write_pretty_xml file_write root = (if well_formed root then file_write else Some ExpatError)"

text \<open>
  \<open>generate_xml\<close>: the collection is sorted in place, the tree is built from it and
  written. The result is the scraper and the tree that was written; \<open>today\<close> is the date
  in the header comment. The statistics printed at the end are left out.
\<close>

definition generate_xml :: "string \<Rightarrow> pyexc option \<Rightarrow> scraper \<Rightarrow> pyexc + (scraper \<times> xml)" where
  "generate_xml today file_write st =
     (case sort_addresses (addresses st) of
        Inl e \<Rightarrow> Inl e
      | Inr sorted_addrs \<Rightarrow>
          (case address_elements sorted_addrs of
             Inl e \<Rightarrow> Inl e
           | Inr elems \<Rightarrow>
               (case write_pretty_xml file_write
                       (Element ''Config'' None (Comment (header_comment today) # elems)) of
                  Some e \<Rightarrow> Inl e
                | None \<Rightarrow>
                    Inr (st\<lparr>addresses := sorted_addrs\<rparr>,
                         Element ''Config'' None (Comment (header_comment today) # elems)))))"


section \<open>The run\<close>

text \<open>
  What a run meets outside the program: the package \<open>pycountry\<close>, the outcome of fetching
  and parsing the GOV.UK page, the spreadsheet path given on the command line, the outcome of
  the download (the name of the temporary file), whether a path exists, what
  \<open>pd.read_excel\<close> makes of a path, the date, and the outcome of opening and writing
  the output file. Standard output is taken to accept what is printed.
\<close>

record env =
  countries :: pycountry
  gov_uk_page :: "pyexc + soup"
  fcdo_ods_file :: "string option"
  fcdo_download :: "pyexc + string"
  path_exists :: "string \<Rightarrow> bool"
  read_excel :: "string \<Rightarrow> pyexc + dataframe"
  today :: string
  write_file :: "pyexc option"

text \<open>\<open>download_fcdo_ods\<close>: the temporary file's name, or \<open>None\<close> after reporting the error.\<close>

definition download_fcdo_ods :: "env \<Rightarrow> scraper \<Rightarrow> string option \<times> scraper" where
  "download_fcdo_ods e st =
     (case fcdo_download e of
        Inl x \<Rightarrow> (None, st\<lparr>stdout := stdout st @ [ErrorDownloading x]\<rparr>)
      | Inr name \<Rightarrow> (Some name, st))"

text \<open>
  The middle of \<open>run\<close>: the spreadsheet given on the command line or else the
  downloaded one is parsed if the file exists; otherwise the reason is printed. (Removing
  the temporary file changes nothing here.)
\<close>

definition handle_fcdo :: "env \<Rightarrow> scraper \<Rightarrow> scraper" where
  "handle_fcdo e st =
     (case (if truthy (fcdo_ods_file e) then (fcdo_ods_file e, st) else download_fcdo_ods e st) of
        (ods_file, st1) \<Rightarrow>
          if truthy ods_file then
            (if path_exists e (the ods_file)
             then parse_fcdo_ods (countries e) (read_excel e (the ods_file)) st1
             else st1\<lparr>stdout := stdout st1 @ [FileNotFound (the ods_file)]\<rparr>)
          else st1\<lparr>stdout := stdout st1 @ [SkippingFcdo]\<rparr>)"

definition run :: "env \<Rightarrow> pyexc + (scraper \<times> xml)" where
  "run e =
     (case scrape_gov_uk_bfpo (countries e) (gov_uk_page e) init_scraper of
        Inl x \<Rightarrow> Inl x
      | Inr st \<Rightarrow> generate_xml (today e) (write_file e) (handle_fcdo e st))"


section \<open>A small catalog for examples\<close>

text \<open>
  An instance of the \<open>pycountry\<close> interface over three names, used where an example needs a
  catalog. A lookup that finds nothing returns \<open>None\<close>, as the current releases of the
  package do; the fuzzy search matches a name that contains the query, case ignored, and
  raises \<open>LookupError\<close> when there is none.
\<close>

definition sample_names :: "(string \<times> string) list" where
  "sample_names = [(''Canada'', ''CA''), (''Germany'', ''DE''), (''Netherlands'', ''NL'')]"

definition sample_get :: "(string \<times> string) list \<Rightarrow> string \<Rightarrow> pyexc + country option" where
  "sample_get tab v = Inr (map_option (\<lambda>code. \<lparr>alpha_2 = code\<rparr>) (map_of tab v))"

definition sample_search :: "string \<Rightarrow> pyexc + country list" where
  "sample_search q =
     (case filter (\<lambda>(n, code). contains (lower n) (lower q)) sample_names of
        [] \<Rightarrow> Inl LookupError
      | hits \<Rightarrow> Inr (map (\<lambda>(n, code). \<lparr>alpha_2 = code\<rparr>) hits))"

definition sample_pycountry :: pycountry where
  "sample_pycountry =
     \<lparr>get_name = sample_get sample_names,
      get_common_name = sample_get [(''Bolivia'', ''BO'')],
      get_alpha_2 = sample_get (map (\<lambda>(n, code). (code, code)) sample_names),
      search_fuzzy = sample_search\<rparr>"

text \<open>The same catalog in the older style, where a lookup that finds nothing raises.\<close>

definition raising_get :: "(string \<times> string) list \<Rightarrow> string \<Rightarrow> pyexc + country option" where
  "raising_get tab v =
     (case map_of tab v of None \<Rightarrow> Inl KeyError | Some code \<Rightarrow> Inr (Some \<lparr>alpha_2 = code\<rparr>))"

definition raising_pycountry :: pycountry where
  "raising_pycountry =
     \<lparr>get_name = raising_get sample_names,
      get_common_name = raising_get [(''Bolivia'', ''BO'')],
      get_alpha_2 = raising_get (map (\<lambda>(n, code). (code, code)) sample_names),
      search_fuzzy = sample_search\<rparr>"

text \<open>A page on which one section is found, with the given table, and no other.\<close>

definition only_section :: "page_section \<Rightarrow> string list list \<Rightarrow> soup" where
  "only_section sec table s = (if s = sec then Table table else HeadingNotFound)"

text \<open>A page on which no section is found.\<close>

definition no_sections :: soup where
  "no_sections s = HeadingNotFound"



section \<open>Properties of records and of the printed lines\<close>

text \<open>
  The rule for box numbers: a detachment record carries the detachment postcode, and a record
  of any other type carries no box number.
\<close>

definition box_rule :: "address \<Rightarrow> bool" where
  "box_rule a =
     ((a ''Type'' = Some ''detachment'' \<longrightarrow> a ''PstCd'' = Some ISOLATED_DETACHMENT_POSTCODE)
      \<and> (a ''Type'' \<noteq> Some ''detachment'' \<longrightarrow> a ''BoxNum'' = None))"

text \<open>The three keys every record has.\<close>

definition has_required :: "address \<Rightarrow> bool" where
  "has_required a = (a ''BfpoNum'' \<noteq> None \<and> a ''Loc'' \<noteq> None \<and> a ''Type'' \<noteq> None)"

text \<open>The warning printed when the heading of a section is not found.\<close>

fun section_warning :: "page_section \<Rightarrow> line" where
  "section_warning Germany = Warning ''Could not find Germany BFPO locations section''"
| "section_warning UK = Warning ''Could not find UK BFPO locations section''"
| "section_warning Europe = Warning ''Could not find Europe BFPO locations section''"
| "section_warning World = Warning ''Could not find World BFPO locations section''"
| "section_warning Ships = Warning ''Could not find HM Ships section''"
| "section_warning NavalParties = Warning ''Could not find Naval parties section''"
| "section_warning Operations = Warning ''Could not find Operations section''"
| "section_warning Exercises = Warning ''Could not find Exercises section''"
| "section_warning IsolatedDetachments = Warning ''Could not find Isolated detachments section''"


text \<open>
  A record that \<open>generate_xml\<close> can write: it has the three keys, its number has a sort
  key, and its fields are made of characters that XML allows.
\<close>

definition writable :: "address \<Rightarrow> bool" where
  "writable a =
     (has_required a
      \<and> (case get_sort_key a of Inl e \<Rightarrow> False | Inr k \<Rightarrow> True)
      \<and> list_all (\<lambda>k. case a k of None \<Rightarrow> True | Some v \<Rightarrow> list_all xml_char v)
            [''BfpoNum'', ''BoxNum'', ''Loc'', ''PstCd'', ''Ctry'', ''CtryCd'', ''Type''])"

text \<open>The sort key of a record that has one.\<close>

definition key_of :: "address \<Rightarrow> int" where
  "key_of addr = (case get_sort_key addr of Inr k \<Rightarrow> k | Inl e \<Rightarrow> 0)"


text \<open>
  How the scraper changes while the sources are read: by a call of the normalizer that
  returns, where a detachment is given the detachment postcode and only a detachment is
  given a box number, or by printing.
\<close>

inductive grows :: "pycountry \<Rightarrow> scraper \<Rightarrow> scraper \<Rightarrow> bool" for lib :: pycountry where
  same: "grows lib st st"
| added: "grows lib st st1 \<Longrightarrow>
          add_address lib st1 bfpo_num location postcode country bfpo_type box_num = Inr st2 \<Longrightarrow>
          (bfpo_type = ''detachment'' \<longrightarrow> postcode = Some ISOLATED_DETACHMENT_POSTCODE) \<Longrightarrow>
          (bfpo_type \<noteq> ''detachment'' \<longrightarrow> box_num = None) \<Longrightarrow>
          grows lib st st2"
| printed: "grows lib st st1 \<Longrightarrow> grows lib st (st1\<lparr>stdout := stdout st1 @ ls\<rparr>)"

text \<open>
  Modelled from the documentation of the XML libraries: what an XML parser reads back from
  the file that \<open>_write_pretty_xml\<close> has written. Escaped characters come back as they
  were; a carriage return, alone or before a line feed, comes back as a line feed, since a
  parser normalises line ends; an element written with an empty text comes back without
  text. (The white space that pretty-printing puts between elements is not represented.)
\<close>

fun normalize_newlines :: "string \<Rightarrow> string" where
  "normalize_newlines [] = []"
| "normalize_newlines [c] = [if c = CHR 0x0D then CHR 0x0A else c]"
| "normalize_newlines (c # d # cs) =
     (if c = CHR 0x0D \<and> d = CHR 0x0A then CHR 0x0A # normalize_newlines cs
      else if c = CHR 0x0D then CHR 0x0A # normalize_newlines (d # cs)
      else c # normalize_newlines (d # cs))"

definition reparsed_text :: "string option \<Rightarrow> string option" where
  "reparsed_text text =
     (case text of None \<Rightarrow> None | Some t \<Rightarrow> if t = [] then None else Some (normalize_newlines t))"

fun reparse :: "xml \<Rightarrow> xml" where
  "reparse (Comment t) = Comment (normalize_newlines t)"
| "reparse (Element tag text children) = Element tag (reparsed_text text) (map reparse children)"

text \<open>
  Reading the triples back: for every \<open>BFFO_Address\<close> element of the document, in order,
  the texts of its first \<open>BfpoNum\<close>, \<open>Loc\<close> and \<open>Type\<close> children.
\<close>

fun child_text :: "string \<Rightarrow> xml list \<Rightarrow> string option" where
  "child_text tag [] = None"
| "child_text tag (Comment t # xs) = child_text tag xs"
| "child_text tag (Element t text children # xs) = (if t = tag then text else child_text tag xs)"

fun address_triples :: "xml list \<Rightarrow> (string option \<times> string option \<times> string option) list" where
  "address_triples [] = []"
| "address_triples (Comment t # xs) = address_triples xs"
| "address_triples (Element t text children # xs) =
     (if t = ''BFFO_Address''
      then (child_text ''BfpoNum'' children, child_text ''Loc'' children, child_text ''Type'' children)
             # address_triples xs
      else address_triples xs)"

fun read_triples :: "xml \<Rightarrow> (string option \<times> string option \<times> string option) list" where
  "read_triples (Comment t) = []"
| "read_triples (Element tag text children) = address_triples children"

text \<open>Writing the document and reading the triples back from the file.\<close>

definition round_trip ::
  "string \<Rightarrow> pyexc option \<Rightarrow> scraper
     \<Rightarrow> pyexc + (string option \<times> string option \<times> string option) list" where
  "round_trip date file_write st =
     (case generate_xml date file_write st of
        Inl e \<Rightarrow> Inl e
      | Inr (st', doc) \<Rightarrow> Inr (read_triples (reparse doc)))"

text \<open>
  A text that comes back as it was: not empty and without a carriage return. A record whose
  three required fields are such.
\<close>

definition plain_text :: "string option \<Rightarrow> bool" where
  "plain_text text = (case text of None \<Rightarrow> False | Some t \<Rightarrow> t \<noteq> [] \<and> CHR 0x0D \<notin> set t)"

definition plain_triple :: "address \<Rightarrow> bool" where
  "plain_triple a = (plain_text (a ''BfpoNum'') \<and> plain_text (a ''Loc'') \<and> plain_text (a ''Type''))"

text \<open>Two runs for examples: a page on which no section is found, and a page that cannot be fetched.\<close>

definition no_sections_env :: env where
  "no_sections_env =
     \<lparr>countries = sample_pycountry,
      gov_uk_page = Inr no_sections,
      fcdo_ods_file = None,
      fcdo_download = Inl OtherException,
      path_exists = (\<lambda>p. False),
      read_excel = (\<lambda>p. Inl OtherException),
      today = ''2025-01-01'',
      write_file = None\<rparr>"


text \<open>A run over a page that has the ships table only, with one ship of the given number.\<close>

definition one_ship_env :: "string \<Rightarrow> env" where
  "one_ship_env num =
     no_sections_env\<lparr>gov_uk_page := Inr (only_section Ships
        [[''Ship'', ''BFPO number'', ''Postcode''], [''HMS Albion'', num, ''BF1 4AA'']])\<rparr>"


section \<open>The resolution order\<close>

lemmas str_defs = startswith_def upper_def upper_char_def lower_def lower_char_def title_def is_cased_def
lemmas sample_defs = sample_pycountry_def sample_get_def sample_names_def sample_search_def
   raising_pycountry_def raising_get_def
lemmas resolver_defs = get_country_code_def SPECIAL_CASES_def try_get_def try_fuzzy_def
   caught_KeyError_AttributeError_def caught_LookupError_def


lemma well_behaved_raising: "well_behaved raising_pycountry"
  by (auto simp: well_behaved_def sample_defs caught_LookupError_def caught_KeyError_AttributeError_def split: list.splits option.splits)

lemma try_get_total: "well_behaved lib \<Longrightarrow> \<exists>r. try_get (get_name lib v) = Inr r"
  by (auto simp: well_behaved_def try_get_def split: sum.splits option.splits)

lemma try_get_common_total: "well_behaved lib \<Longrightarrow> \<exists>r. try_get (get_common_name lib v) = Inr r"
  by (auto simp: well_behaved_def try_get_def split: sum.splits option.splits)

lemma try_fuzzy_total: "well_behaved lib \<Longrightarrow> \<exists>r. try_fuzzy (search_fuzzy lib v) = Inr r"
  by (auto simp: well_behaved_def try_fuzzy_def split: sum.splits list.splits)

lemma try_variations_total: "well_behaved lib \<Longrightarrow> \<exists>r. try_variations lib vs = Inr r"
proof (induction vs)
  case Nil
  then show ?case by simp
next
  case (Cons v vs)
  from Cons.prems obtain r where "try_get (get_common_name lib v) = Inr r"
    using try_get_common_total by blast
  with Cons show ?case by (cases r) auto
qed

lemma get_country_code_total:
  assumes "well_behaved lib"
  shows "\<exists>r. get_country_code lib country_name = Inr r"
proof -
  obtain a where a: "try_get (get_name lib country_name) = Inr a"
    using try_get_total [OF assms] by blast
  obtain b where b: "try_fuzzy (search_fuzzy lib country_name) = Inr b"
    using try_fuzzy_total [OF assms] by blast
  obtain c where c: "try_variations lib [upper country_name, lower country_name, title country_name] = Inr c"
    using try_variations_total [OF assms] by blast
  show ?thesis
    unfolding get_country_code_def
    by (simp only: a b c split: option.split sum.split if_split) simp
qed

lemma get_country_code_in_order:
  "country_name \<noteq> [] \<Longrightarrow> get_country_code lib country_name = resolve_in_order lib country_name"
  unfolding get_country_code_def resolve_in_order_def resolution_steps_def
  by (simp split: option.splits sum.splits)

text \<open>
  Claim C4, as the code has it. For every non-empty country name \<open>get_country_code\<close>
  goes through the steps in the order override table, exact name, fuzzy top candidate,
  upper, lower and title case against the common names, and the first match wins; when no
  step matches it prints the warning and returns absent. As long as the package raises
  only what the code catches, the call returns and does not raise. \<open>Holland\<close> resolves
  to \<open>NL\<close> through the override table whatever the catalog holds, \<open>Germany\<close>
  resolves to \<open>DE\<close> by its exact name in a catalog that lists it so, and
  \<open>Not-A-Real-Country\<close> is absent, with the warning, where no step matches it. (The
  empty name is answered with absent before any step and without a warning.)
\<close>

theorem get_country_code_resolution_order:
  assumes "country_name \<noteq> []"
  shows "get_country_code lib country_name = resolve_in_order lib country_name
    \<and> (well_behaved lib \<longrightarrow> (\<exists>r. get_country_code lib country_name = Inr r))
    \<and> get_country_code lib ''Holland'' = Inr (Some ''NL'', [])
    \<and> (get_name lib ''Germany'' = Inr (Some c) \<and> alpha_2 c = ''DE''
         \<longrightarrow> get_country_code lib ''Germany'' = Inr (Some ''DE'', []))
    \<and> (first_match (resolution_steps lib ''Not-A-Real-Country'') = Inr None
         \<longrightarrow> get_country_code lib ''Not-A-Real-Country''
              = Inr (None, [unmapped_warning ''Not-A-Real-Country'']))"
proof (intro conjI impI)
  show "get_country_code lib country_name = resolve_in_order lib country_name"
    using assms by (rule get_country_code_in_order)
  show "\<exists>r. get_country_code lib country_name = Inr r" if "well_behaved lib"
    using that by (rule get_country_code_total)
  show "get_country_code lib ''Holland'' = Inr (Some ''NL'', [])"
    by (simp add: get_country_code_def SPECIAL_CASES_def)
  show "get_country_code lib ''Germany'' = Inr (Some ''DE'', [])"
    if "get_name lib ''Germany'' = Inr (Some c) \<and> alpha_2 c = ''DE''"
    using that by (simp add: get_country_code_def SPECIAL_CASES_def try_get_def)
  show "get_country_code lib ''Not-A-Real-Country'' = Inr (None, [unmapped_warning ''Not-A-Real-Country''])"
    if "first_match (resolution_steps lib ''Not-A-Real-Country'') = Inr None"
    using that by (simp add: get_country_code_in_order resolve_in_order_def)
qed

text \<open>The steps at work on the example catalogs, the title-case retry among them.\<close>

theorem get_country_code_resolution_order_witness:
  "get_country_code sample_pycountry ''Germany'' = Inr (Some ''DE'', [])
   \<and> get_country_code sample_pycountry ''Holland'' = Inr (Some ''NL'', [])
   \<and> get_country_code sample_pycountry ''bolivia'' = Inr (Some ''BO'', [])
   \<and> get_country_code raising_pycountry ''Not-A-Real-Country''
       = Inr (None, [unmapped_warning ''Not-A-Real-Country''])"
proof -
  have g: "get_name sample_pycountry ''Germany'' = Inr (Some \<lparr>alpha_2 = ''DE''\<rparr>)
           \<and> alpha_2 \<lparr>alpha_2 = ''DE''\<rparr> = ''DE''"
    by (simp add: sample_defs)
  have n: "first_match (resolution_steps raising_pycountry ''Not-A-Real-Country'') = Inr None"
    by (simp add: resolution_steps_def sample_defs resolver_defs str_defs)
  have b: "resolve_in_order sample_pycountry ''bolivia'' = Inr (Some ''BO'', [])"
    by (simp add: resolve_in_order_def resolution_steps_def sample_defs resolver_defs str_defs)
  have ne: "''bolivia'' \<noteq> []" by simp
  note s = get_country_code_resolution_order
             [where country_name = "''bolivia''" and lib = sample_pycountry
                and c = "\<lparr>alpha_2 = ''DE''\<rparr>", OF ne]
  note r = get_country_code_resolution_order
             [where country_name = "''bolivia''" and lib = raising_pycountry
                and c = "\<lparr>alpha_2 = ''DE''\<rparr>", OF ne]
  from s g have 1: "get_country_code sample_pycountry ''Germany'' = Inr (Some ''DE'', [])"
    by blast
  from s have 2: "get_country_code sample_pycountry ''Holland'' = Inr (Some ''NL'', [])"
    by blast
  from s b have 3: "get_country_code sample_pycountry ''bolivia'' = Inr (Some ''BO'', [])"
    by simp
  from r n have 4: "get_country_code raising_pycountry ''Not-A-Real-Country''
       = Inr (None, [unmapped_warning ''Not-A-Real-Country''])"
    by blast
  from 1 2 3 4 show ?thesis by blast
qed

text \<open>
  For the empty name the order of steps is not what decides: the fuzzy search of the example
  catalog has a top candidate for it, and where nothing matches the warning would be due,
  yet the code returns absent and prints nothing.
\<close>

theorem get_country_code_empty_name_counterexample:
  "get_country_code sample_pycountry [] = Inr (None, [])
   \<and> resolve_in_order sample_pycountry [] = Inr (Some ''CA'', [])
   \<and> resolve_in_order raising_pycountry [] \<noteq> get_country_code raising_pycountry []"
  by (simp add: resolve_in_order_def resolution_steps_def sample_defs resolver_defs str_defs)


section \<open>The BFPO prefix and the code check\<close>

lemma upper_append: "upper (a @ b) = upper a @ upper b"
  by (simp add: upper_def)

lemma prefix_bfpo_unprefixed:
  "\<not> startswith (upper bfpo_num) ''BFPO'' \<Longrightarrow> prefix_bfpo bfpo_num = ''BFPO '' @ bfpo_num"
  by (simp add: prefix_bfpo_def)

lemma prefix_bfpo_prefixed:
  "startswith (upper bfpo_num) ''BFPO'' \<Longrightarrow> prefix_bfpo bfpo_num = bfpo_num"
  by (simp add: prefix_bfpo_def)

lemma prefix_bfpo_has_prefix: "startswith (upper (prefix_bfpo bfpo_num)) ''BFPO''"
  by (simp add: prefix_bfpo_def startswith_def upper_def upper_char_def)

lemma prefix_bfpo_idem: "prefix_bfpo (prefix_bfpo bfpo_num) = prefix_bfpo bfpo_num"
  using prefix_bfpo_has_prefix by (rule prefix_bfpo_prefixed)

lemma prefix_bfpo_nonempty: "prefix_bfpo bfpo_num \<noteq> []"
  by (auto simp: prefix_bfpo_def startswith_def upper_def)

text \<open>
  Claim C1, at the input where the code departs from it. The prefix test is made on the
  upper-cased number, but the number itself is kept as it came: \<open>bfpo 15\<close> stays
  \<open>bfpo 15\<close>, which does not start with \<open>BFPO \<close>, while \<open>15\<close> becomes
  \<open>BFPO 15\<close>.
\<close>

theorem add_address_keeps_lower_case_prefix:
  "add_address lib init_scraper ''bfpo 15'' ''Anywhere'' None None ''static'' None
     = Inr \<lparr>addresses = [[''BfpoNum'' \<mapsto> ''bfpo 15'', ''Loc'' \<mapsto> ''Anywhere'',
                              ''Type'' \<mapsto> ''static'']],
            stdout = []\<rparr>
   \<and> add_address lib init_scraper ''15'' ''Anywhere'' None None ''static'' None
     = Inr \<lparr>addresses = [[''BfpoNum'' \<mapsto> ''BFPO 15'', ''Loc'' \<mapsto> ''Anywhere'',
                              ''Type'' \<mapsto> ''static'']],
            stdout = []\<rparr>
   \<and> \<not> startswith ''bfpo 15'' ''BFPO ''"
  by (simp add: add_address_def init_scraper_def prefix_bfpo_def set_if_def str_defs)

text \<open>The same, read off the record built with the example catalog.\<close>

theorem add_address_keeps_lower_case_prefix_witness:
  "map_sum id (\<lambda>st. map (\<lambda>a. a ''BfpoNum'') (addresses st))
     (add_address sample_pycountry init_scraper ''bfpo 15'' ''Anywhere'' None None ''static'' None)
   = Inr [Some ''bfpo 15'']"
  using add_address_keeps_lower_case_prefix [of sample_pycountry] by simp

text \<open>
  Claim C3, at the input where the code departs from it. \<open>ZZ\<close> is no override value and
  the catalog has no such code. Where the lookup answers \<open>None\<close> for a code it does not
  have, \<open>validate_country_code\<close> says \<open>True\<close>; only where the lookup raises
  \<open>KeyError\<close> does it say \<open>False\<close>.
\<close>

theorem validate_country_code_ignores_result:
  "validate_country_code sample_pycountry ''ZZ'' = Inr True
   \<and> get_alpha_2 sample_pycountry (upper ''ZZ'') = Inr None
   \<and> ''ZZ'' \<notin> set (map snd SPECIAL_CASES)
   \<and> validate_country_code raising_pycountry ''ZZ'' = Inr False"
  by (simp add: validate_country_code_def SPECIAL_CASES_def sample_defs str_defs
        caught_KeyError_AttributeError_def)

text \<open>The answer depends on how the package reports a miss.\<close>

theorem validate_country_code_ignores_result_witness:
  "validate_country_code sample_pycountry ''ZZ'' \<noteq> validate_country_code raising_pycountry ''ZZ''"
  using validate_country_code_ignores_result by simp

lemma validate_country_code_eq:
  "validate_country_code lib code =
     (if length code \<noteq> 2 then Inr False
      else if code \<in> snd ` set SPECIAL_CASES then Inr True
      else case get_alpha_2 lib (upper code) of
             Inr r \<Rightarrow> Inr True
           | Inl e \<Rightarrow> if e = KeyError \<or> e = AttributeError then Inr False else Inl e)"
  by (auto simp: validate_country_code_def caught_KeyError_AttributeError_def split: sum.splits)


section \<open>The normalizer\<close>

lemma add_address_total:
  assumes "well_behaved lib"
  shows "\<exists>st'. add_address lib st bfpo_num location postcode country bfpo_type box_num = Inr st'"
proof (cases "truthy country")
  case True
  obtain code printed where "get_country_code lib (the country) = Inr (code, printed)"
    using get_country_code_total [OF assms] by (metis surj_pair)
  with True show ?thesis by (simp add: add_address_def Let_def)
next
  case False
  then show ?thesis by (simp add: add_address_def Let_def)
qed

lemma add_address_no_country:
  "\<not> truthy country \<Longrightarrow>
   add_address lib st bfpo_num location postcode country bfpo_type box_num =
     Inr \<lparr>addresses = addresses st @
            [set_if (truthy postcode) ''PstCd'' postcode
               (set_if (truthy box_num) ''BoxNum'' box_num
                  [''BfpoNum'' \<mapsto> prefix_bfpo bfpo_num, ''Loc'' \<mapsto> location,
                   ''Type'' \<mapsto> bfpo_type])],
          stdout = stdout st\<rparr>"
  by (simp add: add_address_def Let_def)

lemma add_address_country:
  "truthy country \<Longrightarrow> get_country_code lib (the country) = Inr (code, printed) \<Longrightarrow>
   add_address lib st bfpo_num location postcode country bfpo_type box_num =
     Inr \<lparr>addresses = addresses st @
            [set_if (truthy code) ''CtryCd'' code
              ((set_if (truthy postcode) ''PstCd'' postcode
                 (set_if (truthy box_num) ''BoxNum'' box_num
                    [''BfpoNum'' \<mapsto> prefix_bfpo bfpo_num, ''Loc'' \<mapsto> location,
                     ''Type'' \<mapsto> bfpo_type]))(''Ctry'' := country))],
          stdout = stdout st @ printed\<rparr>"
  by (simp add: add_address_def Let_def)

lemma add_address_cases:
  assumes "add_address lib st bfpo_num location postcode country bfpo_type box_num = Inr st'"
  obtains (plain) "\<not> truthy country"
      "st' = \<lparr>addresses = addresses st @
            [set_if (truthy postcode) ''PstCd'' postcode
               (set_if (truthy box_num) ''BoxNum'' box_num
                  [''BfpoNum'' \<mapsto> prefix_bfpo bfpo_num, ''Loc'' \<mapsto> location,
                   ''Type'' \<mapsto> bfpo_type])],
          stdout = stdout st\<rparr>"
  | (resolved) code printed where "truthy country"
      "get_country_code lib (the country) = Inr (code, printed)"
      "st' = \<lparr>addresses = addresses st @
            [set_if (truthy code) ''CtryCd'' code
              ((set_if (truthy postcode) ''PstCd'' postcode
                 (set_if (truthy box_num) ''BoxNum'' box_num
                    [''BfpoNum'' \<mapsto> prefix_bfpo bfpo_num, ''Loc'' \<mapsto> location,
                     ''Type'' \<mapsto> bfpo_type]))(''Ctry'' := country))],
          stdout = stdout st @ printed\<rparr>"
proof (cases "truthy country")
  case False
  with assms add_address_no_country [OF False] plain show ?thesis by simp
next
  case True
  show ?thesis
  proof (cases "get_country_code lib (the country)")
    case (Inl e)
    with True assms show ?thesis by (simp add: add_address_def Let_def)
  next
    case (Inr r)
    obtain code printed where r: "r = (code, printed)" by (cases r)
    with Inr True assms add_address_country [OF True, of lib code printed]
    show ?thesis by (intro resolved [of code printed]) simp_all
  qed
qed

lemma truthy_cases: "truthy v \<longleftrightarrow> (\<exists>s. v = Some s \<and> s \<noteq> [])"
  by (cases v) simp_all

lemma truthy_not_empty: "truthy v \<Longrightarrow> v \<noteq> Some []"
  by (cases v) simp_all

lemma set_if_apply: "set_if b k v a k' = (if b \<and> k' = k then v else a k')"
  by (simp add: set_if_def)

lemma dom_set_if: "k \<in> S \<Longrightarrow> dom a \<subseteq> S \<Longrightarrow> dom (set_if b k v a) \<subseteq> S"
  by (auto simp: set_if_def split: if_splits)

lemma dom_upd_option: "k \<in> S \<Longrightarrow> dom a \<subseteq> S \<Longrightarrow> dom (a(k := v)) \<subseteq> S"
  by (auto split: if_splits)


text \<open>What one call of the normalizer appends, key by key.\<close>

lemma add_address_record:
  assumes "add_address lib st bfpo_num location postcode country bfpo_type box_num = Inr st'"
  obtains a code printed where
    "addresses st' = addresses st @ [a]"
    "stdout st' = stdout st @ printed"
    "a ''BfpoNum'' = Some (prefix_bfpo bfpo_num)"
    "a ''Loc'' = Some location"
    "a ''Type'' = Some bfpo_type"
    "a ''PstCd'' = (if truthy postcode then postcode else None)"
    "a ''Ctry'' = (if truthy country then country else None)"
    "a ''BoxNum'' = (if truthy box_num then box_num else None)"
    "a ''CtryCd'' = (if truthy country \<and> truthy code then code else None)"
    "truthy country \<Longrightarrow> get_country_code lib (the country) = Inr (code, printed)"
    "\<not> truthy country \<Longrightarrow> printed = []"
    "dom a \<subseteq> {''BfpoNum'', ''BoxNum'', ''Loc'', ''PstCd'', ''Ctry'', ''CtryCd'', ''Type''}"
  using assms
proof (cases rule: add_address_cases)
  case plain
  define a where "a = set_if (truthy postcode) ''PstCd'' postcode
               (set_if (truthy box_num) ''BoxNum'' box_num
                  [''BfpoNum'' \<mapsto> prefix_bfpo bfpo_num, ''Loc'' \<mapsto> location,
                   ''Type'' \<mapsto> bfpo_type])"
  have keys: "a ''BfpoNum'' = Some (prefix_bfpo bfpo_num)" "a ''Loc'' = Some location"
    "a ''Type'' = Some bfpo_type" "a ''PstCd'' = (if truthy postcode then postcode else None)"
    "a ''Ctry'' = None" "a ''BoxNum'' = (if truthy box_num then box_num else None)"
    "a ''CtryCd'' = None"
    by (simp_all add: a_def set_if_apply)
  have d: "dom a \<subseteq> {''BfpoNum'', ''BoxNum'', ''Loc'', ''PstCd'', ''Ctry'', ''CtryCd'', ''Type''}"
    unfolding a_def
    by (intro dom_set_if dom_upd_option) simp_all
  from plain(2) have st': "addresses st' = addresses st @ [a]" "stdout st' = stdout st @ []"
    by (simp_all add: a_def)
  show ?thesis
    by (rule that [of a "[]" None]) (use st' keys d plain(1) in simp_all)
next
  case (resolved code printed)
  define a where "a = set_if (truthy code) ''CtryCd'' code
              ((set_if (truthy postcode) ''PstCd'' postcode
                 (set_if (truthy box_num) ''BoxNum'' box_num
                    [''BfpoNum'' \<mapsto> prefix_bfpo bfpo_num, ''Loc'' \<mapsto> location,
                     ''Type'' \<mapsto> bfpo_type]))(''Ctry'' := country))"
  have keys: "a ''BfpoNum'' = Some (prefix_bfpo bfpo_num)" "a ''Loc'' = Some location"
    "a ''Type'' = Some bfpo_type" "a ''PstCd'' = (if truthy postcode then postcode else None)"
    "a ''Ctry'' = country" "a ''BoxNum'' = (if truthy box_num then box_num else None)"
    "a ''CtryCd'' = (if truthy code then code else None)"
    by (simp_all add: a_def set_if_apply)
  have d: "dom a \<subseteq> {''BfpoNum'', ''BoxNum'', ''Loc'', ''PstCd'', ''Ctry'', ''CtryCd'', ''Type''}"
    unfolding a_def
    by (intro dom_set_if dom_upd_option) simp_all
  from resolved(3) have st': "addresses st' = addresses st @ [a]" "stdout st' = stdout st @ printed"
    by (simp_all add: a_def)
  show ?thesis
    by (rule that [of a printed code]) (use st' keys d resolved(1,2) in simp_all)
qed

text \<open>
  Claim C6. A call of the normalizer that returns appends one record. Its \<open>PstCd\<close>,
  \<open>Ctry\<close> and \<open>BoxNum\<close> are the postcode, country and box number given, and are
  there only if these were given and not empty, so none of the optional fields is ever the
  empty string. \<open>CtryCd\<close> is there only if \<open>Ctry\<close> is and the resolver returned that
  code. A record built with no postcode and no country has none of \<open>PstCd\<close>,
  \<open>Ctry\<close>, \<open>CtryCd\<close>; \<open>BfpoNum\<close>, \<open>Loc\<close> and \<open>Type\<close> are always there, and
  no other key is. Without a country the call always returns, and with one it returns
  whenever the package raises only what the resolver catches.
\<close>

theorem add_address_optional_fields:
  "(add_address lib st bfpo_num location postcode country bfpo_type box_num = Inr st' \<longrightarrow>
     (\<exists>a. addresses st' = addresses st @ [a]
        \<and> a ''BfpoNum'' = Some (prefix_bfpo bfpo_num) \<and> a ''Loc'' = Some location
        \<and> a ''Type'' = Some bfpo_type
        \<and> a ''PstCd'' = (if truthy postcode then postcode else None)
        \<and> a ''Ctry'' = (if truthy country then country else None)
        \<and> a ''BoxNum'' = (if truthy box_num then box_num else None)
        \<and> a ''PstCd'' \<noteq> Some [] \<and> a ''Ctry'' \<noteq> Some [] \<and> a ''BoxNum'' \<noteq> Some []
        \<and> a ''CtryCd'' \<noteq> Some []
        \<and> (\<forall>code. a ''CtryCd'' = Some code \<longrightarrow>
              truthy country \<and> a ''Ctry'' = country
              \<and> (\<exists>printed. get_country_code lib (the country) = Inr (Some code, printed)))
        \<and> (postcode = None \<and> country = None \<longrightarrow>
              a ''PstCd'' = None \<and> a ''Ctry'' = None \<and> a ''CtryCd'' = None)
        \<and> dom a \<subseteq> {''BfpoNum'', ''BoxNum'', ''Loc'', ''PstCd'', ''Ctry'', ''CtryCd'', ''Type''}))
   \<and> (\<exists>st''. add_address lib st bfpo_num location postcode None bfpo_type box_num = Inr st'')
   \<and> (well_behaved lib \<longrightarrow>
        (\<exists>st''. add_address lib st bfpo_num location postcode country bfpo_type box_num = Inr st''))"
proof (intro conjI impI)
  assume asm: "add_address lib st bfpo_num location postcode country bfpo_type box_num = Inr st'"
  show "\<exists>a. addresses st' = addresses st @ [a]
        \<and> a ''BfpoNum'' = Some (prefix_bfpo bfpo_num) \<and> a ''Loc'' = Some location
        \<and> a ''Type'' = Some bfpo_type
        \<and> a ''PstCd'' = (if truthy postcode then postcode else None)
        \<and> a ''Ctry'' = (if truthy country then country else None)
        \<and> a ''BoxNum'' = (if truthy box_num then box_num else None)
        \<and> a ''PstCd'' \<noteq> Some [] \<and> a ''Ctry'' \<noteq> Some [] \<and> a ''BoxNum'' \<noteq> Some []
        \<and> a ''CtryCd'' \<noteq> Some []
        \<and> (\<forall>code. a ''CtryCd'' = Some code \<longrightarrow>
              truthy country \<and> a ''Ctry'' = country
              \<and> (\<exists>printed. get_country_code lib (the country) = Inr (Some code, printed)))
        \<and> (postcode = None \<and> country = None \<longrightarrow>
              a ''PstCd'' = None \<and> a ''Ctry'' = None \<and> a ''CtryCd'' = None)
        \<and> dom a \<subseteq> {''BfpoNum'', ''BoxNum'', ''Loc'', ''PstCd'', ''Ctry'', ''CtryCd'', ''Type''}"
  proof (rule add_address_record [OF asm])
    fix a code printed
    assume a: "addresses st' = addresses st @ [a]"
      "a ''BfpoNum'' = Some (prefix_bfpo bfpo_num)"
      "a ''Loc'' = Some location"
      "a ''Type'' = Some bfpo_type"
      "a ''PstCd'' = (if truthy postcode then postcode else None)"
      "a ''Ctry'' = (if truthy country then country else None)"
      "a ''BoxNum'' = (if truthy box_num then box_num else None)"
      and cd: "a ''CtryCd'' = (if truthy country \<and> truthy code then code else None)"
      and res: "truthy country \<Longrightarrow> get_country_code lib (the country) = Inr (code, printed)"
      and d: "dom a \<subseteq> {''BfpoNum'', ''BoxNum'', ''Loc'', ''PstCd'', ''Ctry'', ''CtryCd'', ''Type''}"
    have ne: "a ''PstCd'' \<noteq> Some []" "a ''Ctry'' \<noteq> Some []" "a ''BoxNum'' \<noteq> Some []"
      "a ''CtryCd'' \<noteq> Some []"
      using a(5-7) cd by (simp_all add: truthy_not_empty)
    have code: "\<forall>c. a ''CtryCd'' = Some c \<longrightarrow>
              truthy country \<and> a ''Ctry'' = country
              \<and> (\<exists>printed. get_country_code lib (the country) = Inr (Some c, printed))"
      using cd res a(6) by (auto split: if_splits)
    have none: "postcode = None \<and> country = None \<longrightarrow>
              a ''PstCd'' = None \<and> a ''Ctry'' = None \<and> a ''CtryCd'' = None"
      using a(5,6) cd by auto
    from a ne code none d
    show "\<exists>a. addresses st' = addresses st @ [a]
        \<and> a ''BfpoNum'' = Some (prefix_bfpo bfpo_num) \<and> a ''Loc'' = Some location
        \<and> a ''Type'' = Some bfpo_type
        \<and> a ''PstCd'' = (if truthy postcode then postcode else None)
        \<and> a ''Ctry'' = (if truthy country then country else None)
        \<and> a ''BoxNum'' = (if truthy box_num then box_num else None)
        \<and> a ''PstCd'' \<noteq> Some [] \<and> a ''Ctry'' \<noteq> Some [] \<and> a ''BoxNum'' \<noteq> Some []
        \<and> a ''CtryCd'' \<noteq> Some []
        \<and> (\<forall>code. a ''CtryCd'' = Some code \<longrightarrow>
              truthy country \<and> a ''Ctry'' = country
              \<and> (\<exists>printed. get_country_code lib (the country) = Inr (Some code, printed)))
        \<and> (postcode = None \<and> country = None \<longrightarrow>
              a ''PstCd'' = None \<and> a ''Ctry'' = None \<and> a ''CtryCd'' = None)
        \<and> dom a \<subseteq> {''BfpoNum'', ''BoxNum'', ''Loc'', ''PstCd'', ''Ctry'', ''CtryCd'', ''Type''}"
      by (intro exI [of _ a] conjI)
  qed
next
  show "\<exists>st''. add_address lib st bfpo_num location postcode None bfpo_type box_num = Inr st''"
    by (simp add: add_address_def Let_def)
next
  assume "well_behaved lib"
  then show "\<exists>st''. add_address lib st bfpo_num location postcode country bfpo_type box_num = Inr st''"
    by (rule add_address_total)
qed


text \<open>An empty postcode is left out; the country is kept and resolved.\<close>

theorem add_address_optional_fields_witness:
  "add_address sample_pycountry init_scraper ''15'' ''Ottawa'' (Some []) (Some ''Canada'')
      ''navalparty'' None
     = Inr \<lparr>addresses = [[''BfpoNum'' \<mapsto> ''BFPO 15'', ''Loc'' \<mapsto> ''Ottawa'',
                              ''Type'' \<mapsto> ''navalparty'', ''Ctry'' \<mapsto> ''Canada'',
                              ''CtryCd'' \<mapsto> ''CA'']],
            stdout = []\<rparr>
   \<and> (\<exists>a. addresses \<lparr>addresses = [[''BfpoNum'' \<mapsto> ''BFPO 15'', ''Loc'' \<mapsto> ''Ottawa'',
                              ''Type'' \<mapsto> ''navalparty'', ''Ctry'' \<mapsto> ''Canada'',
                              ''CtryCd'' \<mapsto> ''CA'']],
            stdout = []\<rparr> = addresses init_scraper @ [a]
          \<and> a ''PstCd'' = None \<and> a ''BoxNum'' = None \<and> a ''Ctry'' = Some ''Canada'')"
proof -
  have code: "get_country_code sample_pycountry ''Canada'' = Inr (Some ''CA'', [])"
    by (simp add: resolver_defs sample_defs)
  have h: "add_address sample_pycountry init_scraper ''15'' ''Ottawa'' (Some []) (Some ''Canada'')
      ''navalparty'' None
     = Inr \<lparr>addresses = [[''BfpoNum'' \<mapsto> ''BFPO 15'', ''Loc'' \<mapsto> ''Ottawa'',
                              ''Type'' \<mapsto> ''navalparty'', ''Ctry'' \<mapsto> ''Canada'',
                              ''CtryCd'' \<mapsto> ''CA'']],
            stdout = []\<rparr>"
    by (simp add: add_address_def code init_scraper_def prefix_bfpo_def set_if_def str_defs)
  from add_address_optional_fields
         [of sample_pycountry init_scraper "''15''" "''Ottawa''" "Some []" "Some ''Canada''"
             "''navalparty''" None
             "\<lparr>addresses = [[''BfpoNum'' \<mapsto> ''BFPO 15'', ''Loc'' \<mapsto> ''Ottawa'',
                              ''Type'' \<mapsto> ''navalparty'', ''Ctry'' \<mapsto> ''Canada'',
                              ''CtryCd'' \<mapsto> ''CA'']],
            stdout = []\<rparr>"] h
  show ?thesis by (simp add: init_scraper_def)
qed

lemma for_rows_append:
  assumes "\<And>st row. body st row = Inr (if p row then st\<lparr>addresses := addresses st @ [f row]\<rparr> else st)"
  shows "for_rows body st rs = Inr (st\<lparr>addresses := addresses st @ map f (filter p rs)\<rparr>)"
proof (induction rs arbitrary: st)
  case Nil
  show ?case by simp
next
  case (Cons r rs)
  have "for_rows body st (r # rs)
        = for_rows body (if p r then st\<lparr>addresses := addresses st @ [f r]\<rparr> else st) rs"
    by (simp only: for_rows.simps assms sum.case)
  also have "\<dots> = Inr ((if p r then st\<lparr>addresses := addresses st @ [f r]\<rparr> else st)
               \<lparr>addresses := addresses (if p r then st\<lparr>addresses := addresses st @ [f r]\<rparr> else st)
                               @ map f (filter p rs)\<rparr>)"
    by (rule Cons.IH)
  also have "\<dots> = Inr (st\<lparr>addresses := addresses st @ map f (filter p (r # rs))\<rparr>)"
    by simp
  finally show ?case .
qed

lemma resolve_by_name:
  assumes "map_of SPECIAL_CASES country_name = None" and "country_name \<noteq> []"
    and "get_name lib country_name = Inr (Some c)"
  shows "get_country_code lib country_name = Inr (Some (alpha_2 c), [])"
  using assms by (simp add: get_country_code_def try_get_def)

text \<open>
  Claim C8. With a catalog in which the name \<open>Canada\<close> has the code \<open>CA\<close>, the one
  naval-parties row \<open>Ottawa | 005 | K1N 1A1\<close> gives exactly the record with
  \<open>BfpoNum = BFPO 005\<close>, \<open>Loc = Ottawa\<close>, \<open>PstCd = K1N 1A1\<close>,
  \<open>Ctry = Canada\<close>, \<open>CtryCd = CA\<close> and \<open>Type = navalparty\<close>, and nothing is
  printed.
\<close>

theorem parse_naval_parties_ottawa:
  assumes "get_name lib ''Canada'' = Inr (Some c)" and "alpha_2 c = ''CA''"
    and "page NavalParties = Table [header, [''Ottawa'', ''005'', ''K1N 1A1'']]"
  shows "parse_naval_parties lib page init_scraper
     = Inr \<lparr>addresses = [[''BfpoNum'' \<mapsto> ''BFPO 005'', ''Loc'' \<mapsto> ''Ottawa'',
                              ''PstCd'' \<mapsto> ''K1N 1A1'', ''Ctry'' \<mapsto> ''Canada'',
                              ''CtryCd'' \<mapsto> ''CA'', ''Type'' \<mapsto> ''navalparty'']],
            stdout = []\<rparr>"
proof -
  have code: "get_country_code lib (the (Some ''Canada'')) = Inr (Some ''CA'', [])"
    using resolve_by_name [of "''Canada''" lib c] assms(1,2) by (simp add: SPECIAL_CASES_def)
  have inferred: "naval_party_country ''Ottawa'' = Some ''Canada''"
    by (simp add: naval_party_country_def startswith_def)
  have m: "set_if (truthy (Some ''CA'')) ''CtryCd'' (Some ''CA'')
              ((set_if (truthy (Some ''K1N 1A1'')) ''PstCd'' (Some ''K1N 1A1'')
                 (set_if (truthy None) ''BoxNum'' None
                    [''BfpoNum'' \<mapsto> prefix_bfpo ''005'', ''Loc'' \<mapsto> ''Ottawa'',
                     ''Type'' \<mapsto> ''navalparty'']))(''Ctry'' := Some ''Canada''))
        = [''BfpoNum'' \<mapsto> ''BFPO 005'', ''Loc'' \<mapsto> ''Ottawa'',
                              ''PstCd'' \<mapsto> ''K1N 1A1'', ''Ctry'' \<mapsto> ''Canada'',
                              ''CtryCd'' \<mapsto> ''CA'', ''Type'' \<mapsto> ''navalparty'']"
    by (rule ext) (simp add: set_if_def prefix_bfpo_def str_defs)
  have "add_address lib init_scraper ''005'' ''Ottawa'' (Some ''K1N 1A1'') (Some ''Canada'')
          ''navalparty'' None
     = Inr \<lparr>addresses = [[''BfpoNum'' \<mapsto> ''BFPO 005'', ''Loc'' \<mapsto> ''Ottawa'',
                              ''PstCd'' \<mapsto> ''K1N 1A1'', ''Ctry'' \<mapsto> ''Canada'',
                              ''CtryCd'' \<mapsto> ''CA'', ''Type'' \<mapsto> ''navalparty'']],
            stdout = []\<rparr>"
    using add_address_country [OF _ code, of init_scraper "''005''" "''Ottawa''" "Some ''K1N 1A1''"
             "''navalparty''" None]
    by (simp only: m) (simp add: init_scraper_def)
  then show ?thesis
    by (simp add: parse_naval_parties_def parse_section_def assms(3) parse_table_rows_def inferred)
qed

text \<open>The row on a page that has the naval-parties section, with the example catalog.\<close>

theorem parse_naval_parties_ottawa_witness:
  "parse_naval_parties sample_pycountry
      (only_section NavalParties [[''Location'', ''BFPO number'', ''Postcode''],
                                  [''Ottawa'', ''005'', ''K1N 1A1'']]) init_scraper
     = Inr \<lparr>addresses = [[''BfpoNum'' \<mapsto> ''BFPO 005'', ''Loc'' \<mapsto> ''Ottawa'',
                              ''PstCd'' \<mapsto> ''K1N 1A1'', ''Ctry'' \<mapsto> ''Canada'',
                              ''CtryCd'' \<mapsto> ''CA'', ''Type'' \<mapsto> ''navalparty'']],
            stdout = []\<rparr>"
proof -
  have 1: "get_name sample_pycountry ''Canada'' = Inr (Some \<lparr>alpha_2 = ''CA''\<rparr>)"
    by (simp add: sample_defs)
  have 2: "alpha_2 \<lparr>alpha_2 = ''CA''\<rparr> = ''CA''"
    by simp
  have 3: "only_section NavalParties [[''Location'', ''BFPO number'', ''Postcode''],
                                  [''Ottawa'', ''005'', ''K1N 1A1'']] NavalParties
           = Table [[''Location'', ''BFPO number'', ''Postcode''], [''Ottawa'', ''005'', ''K1N 1A1'']]"
    by (simp add: only_section_def)
  show ?thesis
    by (rule parse_naval_parties_ottawa
          [where lib = sample_pycountry and c = "\<lparr>alpha_2 = ''CA''\<rparr>"
             and header = "[''Location'', ''BFPO number'', ''Postcode'']"
             and page = "only_section NavalParties [[''Location'', ''BFPO number'', ''Postcode''],
                                  [''Ottawa'', ''005'', ''K1N 1A1'']]", OF 1 2 3])
qed


section \<open>Isolated detachments\<close>

lemma resolve_germany:
  assumes "get_name lib ''Germany'' = Inr (Some c)" and "alpha_2 c = ''DE''"
  shows "get_country_code lib (the (Some ''Germany'')) = Inr (Some ''DE'', [])"
  using resolve_by_name [of "''Germany''" lib c] assms by (simp add: SPECIAL_CASES_def)

lemma detachment_address:
  assumes "get_country_code lib (the (Some ''Germany'')) = Inr (Some ''DE'', [])"
  shows "add_address lib st ''105'' loc (Some ISOLATED_DETACHMENT_POSTCODE) (Some ''Germany'')
           ''detachment'' (Some box)
         = Inr (st\<lparr>addresses := addresses st @
                  [[''BfpoNum'' \<mapsto> ''BFPO 105'', ''Loc'' \<mapsto> loc, ''PstCd'' \<mapsto> ''BF1 0AX'',
                    ''Ctry'' \<mapsto> ''Germany'', ''CtryCd'' \<mapsto> ''DE'', ''Type'' \<mapsto> ''detachment'']
                   (''BoxNum'' := if box = [] then None else Some box)]\<rparr>)"
proof -
  have m: "set_if (truthy (Some ''DE'')) ''CtryCd'' (Some ''DE'')
              ((set_if (truthy (Some ISOLATED_DETACHMENT_POSTCODE)) ''PstCd''
                   (Some ISOLATED_DETACHMENT_POSTCODE)
                 (set_if (truthy (Some box)) ''BoxNum'' (Some box)
                    [''BfpoNum'' \<mapsto> prefix_bfpo ''105'', ''Loc'' \<mapsto> loc,
                     ''Type'' \<mapsto> ''detachment'']))(''Ctry'' := Some ''Germany''))
        = [''BfpoNum'' \<mapsto> ''BFPO 105'', ''Loc'' \<mapsto> loc, ''PstCd'' \<mapsto> ''BF1 0AX'',
                    ''Ctry'' \<mapsto> ''Germany'', ''CtryCd'' \<mapsto> ''DE'', ''Type'' \<mapsto> ''detachment'']
                   (''BoxNum'' := if box = [] then None else Some box)"
    by (rule ext)
       (simp add: set_if_def prefix_bfpo_def str_defs ISOLATED_DETACHMENT_POSTCODE_def)
  show ?thesis
    using add_address_country [OF _ assms, of st "''105''" loc "Some ISOLATED_DETACHMENT_POSTCODE"
             "''detachment''" "Some box"]
    by (simp only: m) simp
qed

text \<open>
  Claim C10, as the code has it. With a catalog in which the name \<open>Germany\<close> has the
  code \<open>DE\<close>, the detachment table adds one record for every row of at least two cells,
  in the order of the rows: \<open>BfpoNum = BFPO 105\<close>, \<open>PstCd = BF1 0AX\<close>,
  \<open>Ctry = Germany\<close>, \<open>CtryCd = DE\<close>, \<open>Type = detachment\<close>, the first cell as
  \<open>Loc\<close>, and the second cell as \<open>BoxNum\<close> when it is not empty; when it is empty the
  record has no \<open>BoxNum\<close>. Nothing is printed.
\<close>

theorem parse_isolated_detachments_records:
  assumes "get_name lib ''Germany'' = Inr (Some c)" and "alpha_2 c = ''DE''"
    and "page IsolatedDetachments = Table table"
  shows "parse_isolated_detachments lib page st
     = Inr (st\<lparr>addresses := addresses st @
              map (\<lambda>row. [''BfpoNum'' \<mapsto> ''BFPO 105'', ''Loc'' \<mapsto> row ! 0,
                           ''PstCd'' \<mapsto> ''BF1 0AX'', ''Ctry'' \<mapsto> ''Germany'',
                           ''CtryCd'' \<mapsto> ''DE'', ''Type'' \<mapsto> ''detachment'']
                          (''BoxNum'' := if row ! 1 = [] then None else Some (row ! 1)))
                  (filter (\<lambda>row. 2 \<le> length row) (parse_table_rows table))\<rparr>)"
proof -
  note code = resolve_germany [OF assms(1,2)]
  show ?thesis
    unfolding parse_isolated_detachments_def parse_section_def
    by (simp only: assms(3) html_section.case) (rule for_rows_append, simp add: detachment_address [OF code])
qed

text \<open>A table with a full row and a row of one cell, with the example catalog.\<close>

theorem parse_isolated_detachments_records_witness:
  "parse_isolated_detachments sample_pycountry
      (only_section IsolatedDetachments
         [[''Location'', ''Box number''], [''Celle'', ''12''], [''Stray cell'']]) init_scraper
     = Inr \<lparr>addresses = [[''BfpoNum'' \<mapsto> ''BFPO 105'', ''Loc'' \<mapsto> ''Celle'',
                              ''PstCd'' \<mapsto> ''BF1 0AX'', ''Ctry'' \<mapsto> ''Germany'',
                              ''CtryCd'' \<mapsto> ''DE'', ''Type'' \<mapsto> ''detachment'',
                              ''BoxNum'' \<mapsto> ''12'']],
            stdout = []\<rparr>"
proof -
  have 1: "get_name sample_pycountry ''Germany'' = Inr (Some \<lparr>alpha_2 = ''DE''\<rparr>)"
    by (simp add: sample_defs)
  have 2: "alpha_2 \<lparr>alpha_2 = ''DE''\<rparr> = ''DE''"
    by simp
  have 3: "only_section IsolatedDetachments
         [[''Location'', ''Box number''], [''Celle'', ''12''], [''Stray cell'']] IsolatedDetachments
           = Table [[''Location'', ''Box number''], [''Celle'', ''12''], [''Stray cell'']]"
    by (simp add: only_section_def)
  show ?thesis
    using parse_isolated_detachments_records
          [where lib = sample_pycountry and c = "\<lparr>alpha_2 = ''DE''\<rparr>" and st = init_scraper
             and table = "[[''Location'', ''Box number''], [''Celle'', ''12''], [''Stray cell'']]"
             and page = "only_section IsolatedDetachments
                [[''Location'', ''Box number''], [''Celle'', ''12''], [''Stray cell'']]", OF 1 2 3]
    by (simp add: parse_table_rows_def init_scraper_def)
qed

text \<open>A row whose box-number cell is empty gives a record without \<open>BoxNum\<close>.\<close>

theorem parse_isolated_detachments_empty_box_counterexample:
  "parse_isolated_detachments sample_pycountry
      (only_section IsolatedDetachments [[''Location'', ''Box number''], [''Hohne'', []]])
      init_scraper
     = Inr \<lparr>addresses = [[''BfpoNum'' \<mapsto> ''BFPO 105'', ''Loc'' \<mapsto> ''Hohne'',
                              ''PstCd'' \<mapsto> ''BF1 0AX'', ''Ctry'' \<mapsto> ''Germany'',
                              ''CtryCd'' \<mapsto> ''DE'', ''Type'' \<mapsto> ''detachment'']],
            stdout = []\<rparr>
   \<and> [''BfpoNum'' \<mapsto> ''BFPO 105'', ''Loc'' \<mapsto> ''Hohne'', ''PstCd'' \<mapsto> ''BF1 0AX'',
       ''Ctry'' \<mapsto> ''Germany'', ''CtryCd'' \<mapsto> ''DE'', ''Type'' \<mapsto> ''detachment''] ''BoxNum''
     = None"
proof -
  have code: "get_country_code sample_pycountry (the (Some ''Germany'')) = Inr (Some ''DE'', [])"
    by (simp add: resolver_defs sample_defs)
  show ?thesis
    by (simp add: parse_isolated_detachments_def parse_section_def only_section_def
          parse_table_rows_def detachment_address [OF code] init_scraper_def)
qed


section \<open>Every parsing path grows the collection\<close>

lemma grows_trans: "grows lib b c \<Longrightarrow> grows lib a b \<Longrightarrow> grows lib a c"
  by (induction rule: grows.induct) (auto intro: grows.intros)

lemma for_rows_grows:
  assumes "for_rows body st rs = Inr st'"
    and "\<And>st row st'. body st row = Inr st' \<Longrightarrow> grows lib st st'"
  shows "grows lib st st'"
  using assms(1)
proof (induction rs arbitrary: st)
  case Nil
  then show ?case by (simp add: grows.same)
next
  case (Cons r rs)
  show ?case
  proof (cases "body st r")
    case (Inl e)
    with Cons.prems show ?thesis by simp
  next
    case (Inr st1)
    with Cons.prems have "for_rows body st1 rs = Inr st'" by simp
    then have "grows lib st1 st'" by (rule Cons.IH)
    moreover from Inr have "grows lib st st1" by (rule assms(2))
    ultimately show ?thesis by (rule grows_trans)
  qed
qed

lemma parse_section_grows:
  assumes "parse_section page sec what body st = Inr st'"
    and "\<And>st row st'. body st row = Inr st' \<Longrightarrow> grows lib st st'"
  shows "grows lib st st'"
proof (cases "page sec")
  case HeadingNotFound
  with assms(1) have "st' = st\<lparr>stdout := stdout st @ [Warning (''Could not find '' @ what @ '' section'')]\<rparr>"
    by (simp add: parse_section_def)
  then show ?thesis by (simp add: grows.printed [OF grows.same])
next
  case TableNotFound
  with assms(1) show ?thesis by (simp add: parse_section_def grows.same)
next
  case (Table t)
  with assms(1) have "for_rows body st (parse_table_rows t) = Inr st'"
    by (simp add: parse_section_def)
  then show ?thesis using assms(2) by (rule for_rows_grows)
qed

lemma added_plain:
  assumes "add_address lib st b l pc ctry ty None = Inr st'" and "ty \<noteq> ''detachment''"
  shows "grows lib st st'"
  using grows.added [OF grows.same assms(1)] assms(2) by blast

lemma added_detachment:
  assumes "add_address lib st b l (Some ISOLATED_DETACHMENT_POSTCODE) ctry ''detachment'' box = Inr st'"
  shows "grows lib st st'"
  using grows.added [OF grows.same assms] by blast

lemma parsers_grow:
  shows "parse_germany_locations lib page st = Inr st' \<Longrightarrow> grows lib st st'"
    and "parse_uk_locations lib page st = Inr st' \<Longrightarrow> grows lib st st'"
    and "parse_europe_locations lib page st = Inr st' \<Longrightarrow> grows lib st st'"
    and "parse_world_locations lib page st = Inr st' \<Longrightarrow> grows lib st st'"
    and "parse_ships lib page st = Inr st' \<Longrightarrow> grows lib st st'"
    and "parse_naval_parties lib page st = Inr st' \<Longrightarrow> grows lib st st'"
    and "parse_operations lib page st = Inr st' \<Longrightarrow> grows lib st st'"
    and "parse_exercises lib page st = Inr st' \<Longrightarrow> grows lib st st'"
  unfolding parse_germany_locations_def parse_uk_locations_def parse_europe_locations_def
    parse_world_locations_def parse_ships_def parse_naval_parties_def parse_operations_def
    parse_exercises_def
  by (erule parse_section_grows, simp split: if_splits add: grows.same, erule added_plain, simp)+

lemma parse_isolated_detachments_grows:
  "parse_isolated_detachments lib page st = Inr st' \<Longrightarrow> grows lib st st'"
  unfolding parse_isolated_detachments_def
  by (erule parse_section_grows, simp split: if_splits add: grows.same,
      erule added_detachment)

lemma and_then_grows:
  assumes "and_then f g st = Inr st'"
    and "\<And>st st'. f st = Inr st' \<Longrightarrow> grows lib st st'"
    and "\<And>st st'. g st = Inr st' \<Longrightarrow> grows lib st st'"
  shows "grows lib st st'"
proof (cases "f st")
  case (Inl e)
  with assms(1) show ?thesis by (simp add: and_then_def)
next
  case (Inr st1)
  with assms(1) have "g st1 = Inr st'" by (simp add: and_then_def)
  then have "grows lib st1 st'" by (rule assms(3))
  moreover from Inr have "grows lib st st1" by (rule assms(2))
  ultimately show ?thesis by (rule grows_trans)
qed

lemma parse_all_sections_grows:
  "parse_all_sections lib page st = Inr st' \<Longrightarrow> grows lib st st'"
  unfolding parse_all_sections_def
  by (erule and_then_grows, erule parsers_grow)+ (erule parse_isolated_detachments_grows)

lemma scrape_gov_uk_bfpo_grows:
  "scrape_gov_uk_bfpo lib fetched st = Inr st' \<Longrightarrow> grows lib st st'"
  by (cases fetched) (simp_all add: scrape_gov_uk_bfpo_def parse_all_sections_grows)

lemma foldl_grows:
  assumes "\<And>s x. grows lib s (f s x)"
  shows "grows lib s (foldl f s xs)"
proof (induction xs arbitrary: s)
  case Nil
  show ?case by (simp add: grows.same)
next
  case (Cons x xs)
  have "grows lib (f s x) (foldl f (f s x) xs)" by (rule Cons.IH)
  then show ?case using assms [of s x] by (simp add: grows_trans)
qed

lemma fcdo_cell_grows: "grows lib st (fcdo_cell lib row st grp)"
proof (cases grp)
  case (fields loc_col bfpo_col post_col)
  show ?thesis
    unfolding fcdo_cell_def fields
    by (auto simp: Let_def grows.same split: sum.splits intro: added_plain)
qed

lemma fcdo_rows_grows: "grows lib st (fcdo_rows lib df st)"
  unfolding fcdo_rows_def
  by (intro foldl_grows fcdo_cell_grows)

lemma parse_fcdo_ods_grows: "grows lib st (parse_fcdo_ods lib r st)"
  by (cases r) (simp_all add: parse_fcdo_ods_def fcdo_rows_grows grows.printed [OF grows.same])

lemma handle_fcdo_grows: "grows (countries e) st (handle_fcdo e st)"
  unfolding handle_fcdo_def download_fcdo_ods_def
  by (auto split: sum.splits prod.splits
        intro!: grows.same grows.printed parse_fcdo_ods_grows
        intro: grows_trans [OF parse_fcdo_ods_grows])

lemma postcode_truthy: "truthy (Some ISOLATED_DETACHMENT_POSTCODE)"
  by (simp add: ISOLATED_DETACHMENT_POSTCODE_def)

lemma grows_box_rule:
  "grows lib st st' \<Longrightarrow> list_all box_rule (addresses st) \<Longrightarrow> list_all box_rule (addresses st')"
proof (induction rule: grows.induct)
  case (same st)
  then show ?case .
next
  case (added st st1 bfpo_num location postcode country bfpo_type box_num st2)
  from added.hyps(2) obtain a where a: "addresses st2 = addresses st1 @ [a]"
    "a ''Type'' = Some bfpo_type"
    "a ''PstCd'' = (if truthy postcode then postcode else None)"
    "a ''BoxNum'' = (if truthy box_num then box_num else None)"
    by (rule add_address_record)
  have "box_rule a"
    using a(2-4) added.hyps(3,4) postcode_truthy by (auto simp: box_rule_def)
  with a(1) added.IH [OF added.prems] show ?case by simp
next
  case (printed st st1 ls)
  then show ?case by simp
qed

lemma grows_has_required:
  "grows lib st st' \<Longrightarrow> list_all has_required (addresses st)
     \<Longrightarrow> list_all has_required (addresses st')"
proof (induction rule: grows.induct)
  case (same st)
  then show ?case .
next
  case (added st st1 bfpo_num location postcode country bfpo_type box_num st2)
  from added.hyps(2) obtain a where a: "addresses st2 = addresses st1 @ [a]"
    "a ''BfpoNum'' = Some (prefix_bfpo bfpo_num)" "a ''Loc'' = Some location"
    "a ''Type'' = Some bfpo_type"
    by (rule add_address_record)
  have "has_required a"
    using a(2-4) by (simp add: has_required_def)
  with a(1) added.IH [OF added.prems] show ?case by simp
next
  case (printed st st1 ls)
  then show ?case by simp
qed



section \<open>Sorting and the output document\<close>

lemmas parser_defs = parse_germany_locations_def parse_uk_locations_def
  parse_europe_locations_def parse_world_locations_def parse_ships_def parse_naval_parties_def
  parse_operations_def parse_exercises_def parse_isolated_detachments_def parse_section_def
  parse_all_sections_def and_then_def scrape_gov_uk_bfpo_def parse_table_rows_def

lemmas sort_defs = sort_addresses_def get_sort_key_def startswith_def strip_def is_space_def
  isdigit_def is_digit_char_def is_superscript_digit_def py_int_def int_of_digits_def
  digit_val_def

lemmas writer_defs = write_pretty_xml_def header_comment_def xml_char_def startswith_def

lemma all_keys_eq: "all_keys as = Inr ks \<Longrightarrow> ks = map key_of as"
proof (induction as arbitrary: ks)
  case Nil
  then show ?case by simp
next
  case (Cons a as)
  from Cons.prems obtain k ks' where k: "get_sort_key a = Inr k" "all_keys as = Inr ks'"
    "ks = k # ks'"
    by (auto split: sum.splits)
  from k(1) have "key_of a = k" by (simp add: key_of_def)
  with k(3) Cons.IH [OF k(2)] show ?case by simp
qed

lemma writable_key: "writable a \<Longrightarrow> \<exists>k. get_sort_key a = Inr k"
  by (cases "get_sort_key a") (simp_all add: writable_def)

lemma all_keys_total: "list_all writable as \<Longrightarrow> \<exists>ks. all_keys as = Inr ks"
proof (induction as)
  case Nil
  show ?case by simp
next
  case (Cons a as)
  from Cons.prems have "writable a" and "list_all writable as"
    by simp_all
  from this(1) obtain k where k: "get_sort_key a = Inr k"
    using writable_key by blast
  from Cons.IH [OF \<open>list_all writable as\<close>] obtain ks where "all_keys as = Inr ks"
    by blast
  with k show ?case by simp
qed

lemma insort_key_tagged:
  "insort_key fst (f x, x) (map (\<lambda>y. (f y, y)) ys) = map (\<lambda>y. (f y, y)) (insort_key f x ys)"
  by (induction ys) simp_all

lemma sort_key_tagged:
  "sort_key fst (map (\<lambda>y. (f y, y)) xs) = map (\<lambda>y. (f y, y)) (sort_key f xs)"
  by (induction xs) (simp_all add: insort_key_tagged)

lemma zip_tagged: "zip (map f xs) xs = map (\<lambda>y. (f y, y)) xs"
  by (induction xs) simp_all

lemma sort_addresses_eq:
  assumes "sort_addresses as = Inr bs"
  shows "bs = sort_key key_of as"
proof -
  from assms obtain ks where ks: "all_keys as = Inr ks"
    and bs: "bs = map snd (sort_key fst (zip ks as))"
    by (auto simp: sort_addresses_def split: sum.splits)
  from ks have "ks = map key_of as" by (rule all_keys_eq)
  with bs show ?thesis
    by (simp add: zip_tagged sort_key_tagged comp_def)
qed

lemma sort_addresses_total:
  assumes "list_all writable as"
  shows "sort_addresses as = Inr (sort_key key_of as)"
proof -
  from all_keys_total [OF assms] obtain ks where "all_keys as = Inr ks"
    by blast
  then obtain bs where bs: "sort_addresses as = Inr bs"
    by (simp add: sort_addresses_def)
  from sort_addresses_eq [OF bs] bs show ?thesis by simp
qed

lemma address_element_total: "has_required a \<Longrightarrow> \<exists>x. address_element a = Inr x"
  by (simp add: address_element_def has_required_def)

lemma address_elements_total: "list_all has_required as \<Longrightarrow> \<exists>xs. address_elements as = Inr xs"
proof (induction as)
  case Nil
  show ?case by simp
next
  case (Cons a as)
  from Cons.prems have "has_required a" and "list_all has_required as"
    by simp_all
  from this(1) obtain x where x: "address_element a = Inr x"
    using address_element_total by blast
  from Cons.IH [OF \<open>list_all has_required as\<close>] obtain xs where "address_elements as = Inr xs"
    by blast
  with x show ?case by simp
qed

lemma well_formed_list_append:
  "well_formed_list (xs @ ys) = (well_formed_list xs \<and> well_formed_list ys)"
  by (induction xs) simp_all

lemma field_well_formed:
  "(case a k of None \<Rightarrow> True | Some v \<Rightarrow> list_all xml_char v) \<Longrightarrow> well_formed_list (field a k)"
  by (cases "a k") (simp_all add: field_def)

lemma address_element_well_formed:
  assumes "writable a" and "address_element a = Inr x"
  shows "well_formed x"
proof -
  from assms(1) have f: "well_formed_list (field a ''BfpoNum'')"
    "well_formed_list (field a ''BoxNum'')" "well_formed_list (field a ''Loc'')"
    "well_formed_list (field a ''PstCd'')" "well_formed_list (field a ''Ctry'')"
    "well_formed_list (field a ''CtryCd'')" "well_formed_list (field a ''Type'')"
    by (simp_all add: writable_def field_well_formed)
  from assms(2) have
    "x = Element ''BFFO_Address'' None
             (field a ''BfpoNum''
              @ field a ''BoxNum''
              @ field a ''Loc''
              @ field a ''PstCd''
              @ field a ''Ctry''
              @ (if truthy (a ''CtryCd'') then field a ''CtryCd'' else [])
              @ field a ''Type'')"
    by (simp add: address_element_def split: if_splits)
  with f show ?thesis
    by (simp add: well_formed_list_append)
qed

lemma address_elements_well_formed:
  "list_all writable as \<Longrightarrow> address_elements as = Inr xs \<Longrightarrow> well_formed_list xs"
proof (induction as arbitrary: xs)
  case Nil
  then show ?case by simp
next
  case (Cons a as)
  from Cons.prems(2) obtain y ys where y: "address_element a = Inr y"
    "address_elements as = Inr ys" "xs = y # ys"
    by (auto split: sum.splits)
  from Cons.prems(1) have "writable a" and "list_all writable as"
    by simp_all
  from address_element_well_formed [OF this(1) y(1)] Cons.IH [OF this(2) y(2)] y(3)
  show ?case by simp
qed

lemma generate_xml_eq:
  assumes "generate_xml d w st = Inr (st', doc)"
  obtains elems where "sort_addresses (addresses st) = Inr (sort_key key_of (addresses st))"
    "address_elements (sort_key key_of (addresses st)) = Inr elems"
    "st' = st\<lparr>addresses := sort_key key_of (addresses st)\<rparr>"
    "doc = Element ''Config'' None (Comment (header_comment d) # elems)"
proof -
  from assms obtain bs where bs: "sort_addresses (addresses st) = Inr bs"
    by (cases "sort_addresses (addresses st)") (simp_all add: generate_xml_def)
  from sort_addresses_eq [OF bs] have eq: "bs = sort_key key_of (addresses st)" .
  from assms bs obtain elems where elems: "address_elements bs = Inr elems"
    by (cases "address_elements bs") (simp_all add: generate_xml_def)
  from assms bs elems have "st' = st\<lparr>addresses := bs\<rparr>"
    and "doc = Element ''Config'' None (Comment (header_comment d) # elems)"
    by (simp_all add: generate_xml_def split: option.splits)
  with bs elems show ?thesis
    unfolding eq by (rule that)
qed

lemma writable_required: "list_all writable as \<Longrightarrow> list_all has_required as"
  by (simp add: list_all_iff writable_def)

lemma generate_xml_total:
  assumes "list_all writable (addresses st)" and "well_formed (Comment (header_comment d))"
  shows "\<exists>doc. generate_xml d None st
                 = Inr (st\<lparr>addresses := sort_key key_of (addresses st)\<rparr>, doc)"
proof -
  have w: "list_all writable (sort_key key_of (addresses st))"
    using assms(1) by (simp add: list_all_iff)
  then obtain xs where xs: "address_elements (sort_key key_of (addresses st)) = Inr xs"
    using address_elements_total writable_required by blast
  from address_elements_well_formed [OF w xs] assms(2)
  have "well_formed (Element ''Config'' None (Comment (header_comment d) # xs))"
    by simp
  with xs show ?thesis
    by (simp add: generate_xml_def sort_addresses_total [OF assms(1)] write_pretty_xml_def)
qed

lemma sort_addresses_sorted: "sort_addresses as = Inr bs \<Longrightarrow> sorted (map key_of bs)"
  by (drule sort_addresses_eq) simp

lemma sort_addresses_stable:
  "sort_addresses as = Inr bs \<Longrightarrow>
   filter (\<lambda>a. key_of a = k) bs = filter (\<lambda>a. key_of a = k) as"
  by (drule sort_addresses_eq) (simp add: sort_key_stable)

lemma sort_addresses_example:
  "sort_addresses [[''BfpoNum'' \<mapsto> ''BFPO 3''], [''BfpoNum'' \<mapsto> ''BFPO 105''],
                   [''BfpoNum'' \<mapsto> ''BFPO 22''], [''BfpoNum'' \<mapsto> ''BFPO EXERCISE-A'']]
   = Inr [[''BfpoNum'' \<mapsto> ''BFPO 3''], [''BfpoNum'' \<mapsto> ''BFPO 22''],
          [''BfpoNum'' \<mapsto> ''BFPO 105''], [''BfpoNum'' \<mapsto> ''BFPO EXERCISE-A'']]"
  by (simp add: sort_addresses_def get_sort_key_def startswith_def strip_def is_space_def
        isdigit_def is_digit_char_def is_superscript_digit_def py_int_def int_of_digits_def
        digit_val_def)

text \<open>
  Claim C2, at the input where the code departs from it. A record whose number is not
  numeric gets the key 999, so it is sorted before a record with the number 1000, whatever
  the order in which the two were collected. (The lemmas above prove what does hold: the
  result is sorted on the keys, records with equal keys keep their order, and the four
  numbers of the example come out as 3, 22, 105, EXERCISE-A.)
\<close>

theorem sort_addresses_sentinel:
  "sort_addresses
     [[''BfpoNum'' \<mapsto> ''BFPO 1000'', ''Loc'' \<mapsto> ''Kabul'', ''Type'' \<mapsto> ''fcdo''],
      [''BfpoNum'' \<mapsto> ''BFPO EXERCISE-A'', ''Loc'' \<mapsto> ''Exercise A'', ''Type'' \<mapsto> ''exercise'']]
   = Inr [[''BfpoNum'' \<mapsto> ''BFPO EXERCISE-A'', ''Loc'' \<mapsto> ''Exercise A'', ''Type'' \<mapsto> ''exercise''],
          [''BfpoNum'' \<mapsto> ''BFPO 1000'', ''Loc'' \<mapsto> ''Kabul'', ''Type'' \<mapsto> ''fcdo'']]
   \<and> get_sort_key [''BfpoNum'' \<mapsto> ''BFPO 1000'', ''Loc'' \<mapsto> ''Kabul'', ''Type'' \<mapsto> ''fcdo'']
       = Inr 1000
   \<and> get_sort_key [''BfpoNum'' \<mapsto> ''BFPO EXERCISE-A'', ''Loc'' \<mapsto> ''Exercise A'',
                     ''Type'' \<mapsto> ''exercise'']
       = Inr 999"
  by (simp add: sort_addresses_def get_sort_key_def startswith_def strip_def is_space_def
        isdigit_def is_digit_char_def is_superscript_digit_def py_int_def int_of_digits_def
        digit_val_def)

text \<open>The sort of the two records returns.\<close>

theorem sort_addresses_sentinel_witness:
  "sort_addresses
     [[''BfpoNum'' \<mapsto> ''BFPO 1000'', ''Loc'' \<mapsto> ''Kabul'', ''Type'' \<mapsto> ''fcdo''],
      [''BfpoNum'' \<mapsto> ''BFPO EXERCISE-A'', ''Loc'' \<mapsto> ''Exercise A'', ''Type'' \<mapsto> ''exercise'']]
   \<noteq> Inl KeyError"
  using sort_addresses_sentinel by simp


section \<open>Reading the document back\<close>

lemma child_text_field_other:
  "k \<noteq> tag \<Longrightarrow> child_text tag (field a k @ xs) = child_text tag xs"
  "k \<noteq> tag \<Longrightarrow> child_text tag (map reparse (field a k) @ xs) = child_text tag xs"
  by (cases "a k"; simp add: field_def)+

lemma child_text_field:
  "a k = Some v \<Longrightarrow> child_text k (map reparse (field a k) @ xs) = reparsed_text (Some v)"
  "a k = Some v \<Longrightarrow> child_text k (field a k @ xs) = Some v"
  by (simp_all add: field_def)

lemma address_element_children:
  assumes "address_element a = Inr x"
  obtains b l t cs where "a ''BfpoNum'' = Some b" "a ''Loc'' = Some l" "a ''Type'' = Some t"
    "x = Element ''BFFO_Address'' None
           (field a ''BfpoNum'' @ field a ''BoxNum'' @ field a ''Loc'' @ field a ''PstCd''
            @ field a ''Ctry'' @ cs @ field a ''Type'')"
    "cs = [] \<or> cs = field a ''CtryCd''"
proof -
  from assms have r: "a ''BfpoNum'' \<noteq> None" "a ''Loc'' \<noteq> None" "a ''Type'' \<noteq> None"
    and x: "x = Element ''BFFO_Address'' None
           (field a ''BfpoNum'' @ field a ''BoxNum'' @ field a ''Loc'' @ field a ''PstCd''
            @ field a ''Ctry'' @ (if truthy (a ''CtryCd'') then field a ''CtryCd'' else [])
            @ field a ''Type'')"
    by (simp_all add: address_element_def split: if_splits)
  from r obtain b l t where blt: "a ''BfpoNum'' = Some b" "a ''Loc'' = Some l"
    "a ''Type'' = Some t"
    by blast
  have "(if truthy (a ''CtryCd'') then field a ''CtryCd'' else []) = []
     \<or> (if truthy (a ''CtryCd'') then field a ''CtryCd'' else []) = field a ''CtryCd''"
    by simp
  with blt x show ?thesis by (rule that)
qed

lemma address_element_triple:
  assumes "address_element a = Inr x"
  shows "address_triples (x # xs) = (a ''BfpoNum'', a ''Loc'', a ''Type'') # address_triples xs"
    and "address_triples (reparse x # ys)
         = (reparsed_text (a ''BfpoNum''), reparsed_text (a ''Loc''), reparsed_text (a ''Type''))
           # address_triples ys"
proof -
  from assms obtain b l t cs where a: "a ''BfpoNum'' = Some b" "a ''Loc'' = Some l"
    "a ''Type'' = Some t"
    and x: "x = Element ''BFFO_Address'' None
           (field a ''BfpoNum'' @ field a ''BoxNum'' @ field a ''Loc'' @ field a ''PstCd''
            @ field a ''Ctry'' @ cs @ field a ''Type'')"
    and cs: "cs = [] \<or> cs = field a ''CtryCd''"
    by (rule address_element_children)
  note other = child_text_field_other(1)
  have cs1: "child_text tag (cs @ zs) = child_text tag zs" if "tag \<noteq> ''CtryCd''" for tag zs
    using cs that other [of "''CtryCd''" tag a zs] by auto
  have "child_text ''BfpoNum''
           (field a ''BfpoNum'' @ field a ''BoxNum'' @ field a ''Loc'' @ field a ''PstCd''
            @ field a ''Ctry'' @ cs @ field a ''Type'') = Some b"
    by (simp add: child_text_field(2) [where a = a and k = "''BfpoNum''", OF a(1)])
  moreover have "child_text ''Loc''
           (field a ''BfpoNum'' @ field a ''BoxNum'' @ field a ''Loc'' @ field a ''PstCd''
            @ field a ''Ctry'' @ cs @ field a ''Type'') = Some l"
    by (simp add: other child_text_field(2) [where a = a and k = "''Loc''", OF a(2)])
  moreover have "child_text ''Type''
           (field a ''BfpoNum'' @ field a ''BoxNum'' @ field a ''Loc'' @ field a ''PstCd''
            @ field a ''Ctry'' @ cs @ field a ''Type'') = Some t"
    using child_text_field(2) [where a = a and k = "''Type''" and xs = "[]", OF a(3)]
    by (simp add: other cs1)
  ultimately show "address_triples (x # xs)
      = (a ''BfpoNum'', a ''Loc'', a ''Type'') # address_triples xs"
    by (simp add: x a)
  note other' = child_text_field_other(2)
  have cs2: "child_text tag (map reparse cs @ zs) = child_text tag zs"
    if "tag \<noteq> ''CtryCd''" for tag zs
    using cs that other' [of "''CtryCd''" tag a zs] by auto
  have "child_text ''BfpoNum''
           (map reparse (field a ''BfpoNum'') @ map reparse (field a ''BoxNum'')
            @ map reparse (field a ''Loc'') @ map reparse (field a ''PstCd'')
            @ map reparse (field a ''Ctry'') @ map reparse cs @ map reparse (field a ''Type''))
        = reparsed_text (Some b)"
    by (simp add: child_text_field(1) [where a = a and k = "''BfpoNum''", OF a(1)])
  moreover have "child_text ''Loc''
           (map reparse (field a ''BfpoNum'') @ map reparse (field a ''BoxNum'')
            @ map reparse (field a ''Loc'') @ map reparse (field a ''PstCd'')
            @ map reparse (field a ''Ctry'') @ map reparse cs @ map reparse (field a ''Type''))
        = reparsed_text (Some l)"
    by (simp add: other' child_text_field(1) [where a = a and k = "''Loc''", OF a(2)])
  moreover have "child_text ''Type''
           (map reparse (field a ''BfpoNum'') @ map reparse (field a ''BoxNum'')
            @ map reparse (field a ''Loc'') @ map reparse (field a ''PstCd'')
            @ map reparse (field a ''Ctry'') @ map reparse cs @ map reparse (field a ''Type''))
        = reparsed_text (Some t)"
    using child_text_field(1) [where a = a and k = "''Type''" and xs = "[]", OF a(3)]
    by (simp add: other' cs2)
  ultimately show "address_triples (reparse x # ys)
         = (reparsed_text (a ''BfpoNum''), reparsed_text (a ''Loc''), reparsed_text (a ''Type''))
           # address_triples ys"
    by (simp add: x a reparsed_text_def [of None])
qed

lemma address_elements_triples:
  "address_elements as = Inr xs \<Longrightarrow>
   address_triples xs = map (\<lambda>a. (a ''BfpoNum'', a ''Loc'', a ''Type'')) as
   \<and> address_triples (map reparse xs)
     = map (\<lambda>a. (reparsed_text (a ''BfpoNum''), reparsed_text (a ''Loc''),
                  reparsed_text (a ''Type''))) as"
proof (induction as arbitrary: xs)
  case Nil
  then show ?case by simp
next
  case (Cons a as)
  from Cons.prems obtain y ys where y: "address_element a = Inr y"
    "address_elements as = Inr ys" "xs = y # ys"
    by (auto split: sum.splits)
  from Cons.IH [OF y(2)] address_element_triple [OF y(1)] y(3)
  show ?case by simp
qed

lemma normalize_newlines_plain: "CHR 0x0D \<notin> set t \<Longrightarrow> normalize_newlines t = t"
  by (induction t rule: normalize_newlines.induct) auto

lemma reparsed_text_plain: "plain_text v \<Longrightarrow> reparsed_text v = v"
  by (cases v) (simp_all add: plain_text_def reparsed_text_def normalize_newlines_plain)

lemma round_trip_returned:
  assumes "generate_xml d w st = Inr (st', doc)"
  shows "addresses st' = sort_key key_of (addresses st)"
    and "read_triples doc = map (\<lambda>a. (a ''BfpoNum'', a ''Loc'', a ''Type'')) (addresses st')"
    and "round_trip d w st
         = Inr (map (\<lambda>a. (reparsed_text (a ''BfpoNum''), reparsed_text (a ''Loc''),
                           reparsed_text (a ''Type''))) (addresses st'))"
proof -
  from assms obtain elems where
    e: "address_elements (sort_key key_of (addresses st)) = Inr elems"
    and st': "st' = st\<lparr>addresses := sort_key key_of (addresses st)\<rparr>"
    and doc: "doc = Element ''Config'' None (Comment (header_comment d) # elems)"
    by (rule generate_xml_eq)
  from st' show "addresses st' = sort_key key_of (addresses st)"
    by simp
  from address_elements_triples [OF e] st' doc
  show "read_triples doc = map (\<lambda>a. (a ''BfpoNum'', a ''Loc'', a ''Type'')) (addresses st')"
    by simp
  from address_elements_triples [OF e] st' doc
  show "round_trip d w st
         = Inr (map (\<lambda>a. (reparsed_text (a ''BfpoNum''), reparsed_text (a ''Loc''),
                           reparsed_text (a ''Type''))) (addresses st'))"
    by (simp add: round_trip_def assms)
qed

text \<open>
  A location with a control character: no document is written. A record without a
  location: the element is written empty and read back without text.
\<close>

lemma round_trip_control_character:
  "round_trip ''2025-01-01'' None
     \<lparr>addresses = [[''BfpoNum'' \<mapsto> ''BFPO 15'', ''Loc'' \<mapsto> ''A'' @ [CHR 0x01],
                    ''Type'' \<mapsto> ''ship'']],
      stdout = []\<rparr>
   = Inl ExpatError"
  by (simp add: round_trip_def generate_xml_def sort_defs address_element_def field_def
        writer_defs)

lemma round_trip_empty_location:
  "round_trip ''2025-01-01'' None
     \<lparr>addresses = [[''BfpoNum'' \<mapsto> ''BFPO 15'', ''Loc'' \<mapsto> [], ''Type'' \<mapsto> ''ship'']],
      stdout = []\<rparr>
   = Inr [(Some ''BFPO 15'', None, Some ''ship'')]"
  by (simp add: round_trip_def generate_xml_def sort_defs address_element_def field_def
        writer_defs reparsed_text_def)

text \<open>
  Claim C9, as the code has it. When the document can be written (every collected record is
  writable, the header comment is well formed, the file can be written), \<open>generate_xml\<close>
  returns, the records are in sorted order, and the tree that is written carries, record by
  record and in that order, exactly the triples \<open>(BfpoNum, Loc, Type)\<close> of the sorted
  records. Reading the file back gives each text as a parser returns it: line ends
  normalised, an empty text absent. So the triples read back are exactly those of the
  sorted records when no record has an empty text or a carriage return in the three fields.
\<close>

theorem round_trip_triples:
  assumes "list_all writable (addresses st)" and "well_formed (Comment (header_comment d))"
  shows "\<exists>st' doc. generate_xml d None st = Inr (st', doc)
     \<and> addresses st' = sort_key key_of (addresses st)
     \<and> read_triples doc = map (\<lambda>a. (a ''BfpoNum'', a ''Loc'', a ''Type'')) (addresses st')
     \<and> round_trip d None st
       = Inr (map (\<lambda>a. (reparsed_text (a ''BfpoNum''), reparsed_text (a ''Loc''),
                         reparsed_text (a ''Type''))) (addresses st'))
     \<and> (list_all plain_triple (addresses st)
          \<longrightarrow> round_trip d None st
              = Inr (map (\<lambda>a. (a ''BfpoNum'', a ''Loc'', a ''Type'')) (addresses st')))"
proof -
  from generate_xml_total [OF assms] obtain st' doc where
    g: "generate_xml d None st = Inr (st', doc)"
    by blast
  note r = round_trip_returned [OF g]
  have "round_trip d None st
        = Inr (map (\<lambda>a. (a ''BfpoNum'', a ''Loc'', a ''Type'')) (addresses st'))"
    if p: "list_all plain_triple (addresses st)"
  proof -
    from p have "list_all plain_triple (addresses st')"
      unfolding r(1) by (simp add: list_all_iff)
    then have "map (\<lambda>a. (reparsed_text (a ''BfpoNum''), reparsed_text (a ''Loc''),
                         reparsed_text (a ''Type''))) (addresses st')
               = map (\<lambda>a. (a ''BfpoNum'', a ''Loc'', a ''Type'')) (addresses st')"
      by (simp add: list_all_iff plain_triple_def reparsed_text_plain)
    with r(3) show ?thesis by simp
  qed
  with g r show ?thesis by blast
qed

text \<open>Two records collected out of order, written and read back.\<close>

theorem round_trip_triples_witness:
  "list_all writable
     [[''BfpoNum'' \<mapsto> ''BFPO 22'', ''Loc'' \<mapsto> ''Paderborn'', ''Type'' \<mapsto> ''static''],
      [''BfpoNum'' \<mapsto> ''BFPO 3'', ''Loc'' \<mapsto> ''Bielefeld'', ''Type'' \<mapsto> ''static'']]
   \<and> well_formed (Comment (header_comment ''2025-01-01''))
   \<and> list_all plain_triple
     [[''BfpoNum'' \<mapsto> ''BFPO 22'', ''Loc'' \<mapsto> ''Paderborn'', ''Type'' \<mapsto> ''static''],
      [''BfpoNum'' \<mapsto> ''BFPO 3'', ''Loc'' \<mapsto> ''Bielefeld'', ''Type'' \<mapsto> ''static'']]
   \<and> round_trip ''2025-01-01'' None
       \<lparr>addresses =
          [[''BfpoNum'' \<mapsto> ''BFPO 22'', ''Loc'' \<mapsto> ''Paderborn'', ''Type'' \<mapsto> ''static''],
           [''BfpoNum'' \<mapsto> ''BFPO 3'', ''Loc'' \<mapsto> ''Bielefeld'', ''Type'' \<mapsto> ''static'']],
        stdout = []\<rparr>
     = Inr [(Some ''BFPO 3'', Some ''Bielefeld'', Some ''static''),
            (Some ''BFPO 22'', Some ''Paderborn'', Some ''static'')]"
proof -
  let ?a = "[''BfpoNum'' \<mapsto> ''BFPO 22'', ''Loc'' \<mapsto> ''Paderborn'', ''Type'' \<mapsto> ''static'']"
  let ?b = "[''BfpoNum'' \<mapsto> ''BFPO 3'', ''Loc'' \<mapsto> ''Bielefeld'', ''Type'' \<mapsto> ''static'']"
  let ?st = "\<lparr>addresses = [?a, ?b], stdout = []\<rparr>"
  have wr: "list_all writable (addresses ?st)"
    by (simp add: writable_def has_required_def sort_defs xml_char_def)
  have wf: "well_formed (Comment (header_comment ''2025-01-01''))"
    by (simp add: writer_defs)
  have pl: "list_all plain_triple (addresses ?st)"
    by (simp add: plain_triple_def plain_text_def)
  have k: "sort_key key_of (addresses ?st) = [?b, ?a]"
    by (simp add: key_of_def sort_defs)
  from round_trip_triples [OF wr wf] pl obtain st' :: scraper where
    a: "addresses st' = sort_key key_of (addresses ?st)"
    and r: "round_trip ''2025-01-01'' None ?st
       = Inr (map (\<lambda>a. (a ''BfpoNum'', a ''Loc'', a ''Type'')) (addresses st'))"
    by blast
  from r have "round_trip ''2025-01-01'' None ?st
       = Inr (map (\<lambda>a. (a ''BfpoNum'', a ''Loc'', a ''Type'')) [?b, ?a])"
    unfolding a k .
  then have "round_trip ''2025-01-01'' None ?st
     = Inr [(Some ''BFPO 3'', Some ''Bielefeld'', Some ''static''),
            (Some ''BFPO 22'', Some ''Paderborn'', Some ''static'')]"
    by simp
  with wr wf pl show ?thesis by simp
qed

text \<open>
  A ship whose name holds a carriage return: the record is collected with it, and the
  document read back has a line feed in its place.
\<close>

theorem round_trip_carriage_return_counterexample:
  "scrape_gov_uk_bfpo sample_pycountry
     (Inr (only_section Ships
        [[''Ship'', ''BFPO number'', ''Postcode''],
         [''HMS'' @ [CHR 0x0D] @ ''Albion'', ''204'', ''BF1 4AA'']]))
     init_scraper
   = Inr \<lparr>addresses = [[''BfpoNum'' \<mapsto> ''BFPO 204'', ''Loc'' \<mapsto> ''HMS'' @ [CHR 0x0D] @ ''Albion'',
                        ''Type'' \<mapsto> ''ship'', ''PstCd'' \<mapsto> ''BF1 4AA'']],
          stdout = [section_warning Germany, section_warning UK, section_warning Europe,
                    section_warning World, section_warning NavalParties,
                    section_warning Operations, section_warning Exercises,
                    section_warning IsolatedDetachments]\<rparr>
   \<and> round_trip ''2025-01-01'' None
       \<lparr>addresses = [[''BfpoNum'' \<mapsto> ''BFPO 204'', ''Loc'' \<mapsto> ''HMS'' @ [CHR 0x0D] @ ''Albion'',
                        ''Type'' \<mapsto> ''ship'', ''PstCd'' \<mapsto> ''BF1 4AA'']],
        stdout = [section_warning Germany, section_warning UK, section_warning Europe,
                  section_warning World, section_warning NavalParties,
                  section_warning Operations, section_warning Exercises,
                  section_warning IsolatedDetachments]\<rparr>
     = Inr [(Some ''BFPO 204'', Some (''HMS'' @ [CHR 0x0A] @ ''Albion''), Some ''ship'')]
   \<and> ''HMS'' @ [CHR 0x0A] @ ''Albion'' \<noteq> ''HMS'' @ [CHR 0x0D] @ ''Albion''"
  by (simp add: parser_defs only_section_def init_scraper_def add_address_no_country
        prefix_bfpo_def str_defs set_if_def round_trip_def generate_xml_def sort_defs
        address_element_def field_def writer_defs reparsed_text_def)


section \<open>Box numbers\<close>

lemma run_collected:
  assumes "run e = Inr (st, doc)"
  obtains st1 st2 where
    "scrape_gov_uk_bfpo (countries e) (gov_uk_page e) init_scraper = Inr st1"
    "st2 = handle_fcdo e st1"
    "grows (countries e) init_scraper st2"
    "list_all has_required (addresses st2)"
    "st = st2\<lparr>addresses := sort_key key_of (addresses st2)\<rparr>"
proof -
  from assms obtain st1 where
    1: "scrape_gov_uk_bfpo (countries e) (gov_uk_page e) init_scraper = Inr st1"
    and 2: "generate_xml (today e) (write_file e) (handle_fcdo e st1) = Inr (st, doc)"
    by (auto simp: run_def split: sum.splits)
  have g: "grows (countries e) init_scraper (handle_fcdo e st1)"
    using handle_fcdo_grows scrape_gov_uk_bfpo_grows [OF 1] by (rule grows_trans)
  then have r: "list_all has_required (addresses (handle_fcdo e st1))"
    by (rule grows_has_required) (simp add: init_scraper_def)
  from 2
  have "st = (handle_fcdo e st1)\<lparr>addresses := sort_key key_of (addresses (handle_fcdo e st1))\<rparr>"
    by (rule generate_xml_eq)
  with 1 g r show ?thesis by (rule that [OF _ refl])
qed

lemma run_box_rule:
  assumes "run e = Inr (st, doc)"
  shows "list_all box_rule (addresses st)"
  using assms
proof (rule run_collected)
  fix st1 st2
  assume g: "grows (countries e) init_scraper st2"
    and st: "st = st2\<lparr>addresses := sort_key key_of (addresses st2)\<rparr>"
  from g have "list_all box_rule (addresses st2)"
    by (rule grows_box_rule) (simp add: init_scraper_def)
  with st show ?thesis by (simp add: list_all_iff)
qed

lemma for_rows_project:
  assumes "for_rows body st rs = Inr st'"
    and "\<And>st row st'. body st row = Inr st' \<Longrightarrow>
           (if p row then \<exists>a. addresses st' = addresses st @ [a] \<and> proj a = g row else st' = st)"
  shows "\<exists>new. addresses st' = addresses st @ new \<and> map proj new = map g (filter p rs)"
  using assms(1)
proof (induction rs arbitrary: st)
  case Nil
  then show ?case by simp
next
  case (Cons r rs)
  show ?case
  proof (cases "body st r")
    case (Inl e)
    with Cons.prems show ?thesis by simp
  next
    case (Inr s1)
    with Cons.prems have "for_rows body s1 rs = Inr st'" by simp
    then obtain new where new: "addresses st' = addresses s1 @ new"
      "map proj new = map g (filter p rs)"
      using Cons.IH by blast
    show ?thesis
    proof (cases "p r")
      case True
      with assms(2) [OF Inr] obtain a where "addresses s1 = addresses st @ [a]" "proj a = g r"
        by auto
      with new True show ?thesis by (intro exI [of _ "a # new"]) simp
    next
      case False
      with assms(2) [OF Inr] have "s1 = st" by simp
      with new False show ?thesis by (intro exI [of _ new]) simp
    qed
  qed
qed

lemma parse_isolated_detachments_project:
  assumes "parse_isolated_detachments lib page st0 = Inr st1"
    and "page IsolatedDetachments = Table table"
  shows "map (\<lambda>a. (a ''Type'', a ''PstCd'', a ''Loc'', a ''BoxNum''))
             (drop (length (addresses st0)) (addresses st1))
         = map (\<lambda>row. (Some ''detachment'', Some ''BF1 0AX'', Some (row ! 0),
                        if row ! 1 = [] then None else Some (row ! 1)))
               (filter (\<lambda>row. 2 \<le> length row) (parse_table_rows table))"
proof -
  let ?body = "\<lambda>st row. if 2 \<le> length row
          then add_address lib st ''105'' (row ! 0) (Some ISOLATED_DETACHMENT_POSTCODE)
                 (Some ''Germany'') ''detachment'' (Some (row ! 1))
          else Inr st"
  from assms have rows: "for_rows ?body st0 (parse_table_rows table) = Inr st1"
    by (simp add: parse_isolated_detachments_def parse_section_def)
  have step: "if 2 \<le> length row
      then \<exists>a. addresses st' = addresses st @ [a]
             \<and> (a ''Type'', a ''PstCd'', a ''Loc'', a ''BoxNum'')
               = (Some ''detachment'', Some ''BF1 0AX'', Some (row ! 0),
                  if row ! 1 = [] then None else Some (row ! 1))
      else st' = st"
    if b: "?body st row = Inr st'" for st row st'
  proof (cases "2 \<le> length row")
    case False
    with b show ?thesis by simp
  next
    case True
    with b have "add_address lib st ''105'' (row ! 0) (Some ISOLATED_DETACHMENT_POSTCODE)
                 (Some ''Germany'') ''detachment'' (Some (row ! 1)) = Inr st'"
      by simp
    then obtain a where "addresses st' = addresses st @ [a]"
      "a ''Type'' = Some ''detachment''" "a ''Loc'' = Some (row ! 0)"
      "a ''PstCd'' = (if truthy (Some ISOLATED_DETACHMENT_POSTCODE)
                        then Some ISOLATED_DETACHMENT_POSTCODE else None)"
      "a ''BoxNum'' = (if truthy (Some (row ! 1)) then Some (row ! 1) else None)"
      by (rule add_address_record)
    with True show ?thesis
      by (intro iffD2 [OF if_P] exI [of _ a]) (simp_all add: ISOLATED_DETACHMENT_POSTCODE_def)
  qed
  from for_rows_project [of ?body st0 "parse_table_rows table" st1 "\<lambda>row. 2 \<le> length row"
         "\<lambda>a. (a ''Type'', a ''PstCd'', a ''Loc'', a ''BoxNum'')"
         "\<lambda>row. (Some ''detachment'', Some ''BF1 0AX'', Some (row ! 0),
                        if row ! 1 = [] then None else Some (row ! 1))", OF rows step]
  show ?thesis by auto
qed

text \<open>
  Claim C7, as the code has it. In the collection of a run that completes, whatever the
  sources held, every record of type \<open>detachment\<close> carries the detachment postcode and
  no record of another type carries a \<open>BoxNum\<close>. The records the detachment table adds
  are of type \<open>detachment\<close> with the postcode \<open>BF1 0AX\<close>, one for every row of at
  least two cells, and such a record carries a \<open>BoxNum\<close>, the row's second cell, exactly
  when that cell is not empty.
\<close>

theorem box_numbers_only_on_detachments:
  "(run e = Inr (st, doc) \<longrightarrow> list_all box_rule (addresses st))
   \<and> (parse_isolated_detachments lib page st0 = Inr st1 \<and> page IsolatedDetachments = Table table
        \<longrightarrow> map (\<lambda>a. (a ''Type'', a ''PstCd'', a ''Loc'', a ''BoxNum''))
                (drop (length (addresses st0)) (addresses st1))
            = map (\<lambda>row. (Some ''detachment'', Some ''BF1 0AX'', Some (row ! 0),
                           if row ! 1 = [] then None else Some (row ! 1)))
                  (filter (\<lambda>row. 2 \<le> length row) (parse_table_rows table)))"
  using run_box_rule parse_isolated_detachments_project by blast


lemma germany_sample:
  "get_country_code sample_pycountry (the (Some ''Germany'')) = Inr (Some ''DE'', [])"
  by (simp add: resolver_defs sample_defs)

text \<open>A run over a page that has the detachment table only, and no spreadsheet.\<close>

theorem box_numbers_only_on_detachments_witness:
  "run (no_sections_env\<lparr>gov_uk_page := Inr (only_section IsolatedDetachments
           [[''Location'', ''Box number''], [''Celle'', ''12'']])\<rparr>)
   = Inr (\<lparr>addresses = [[''BfpoNum'' \<mapsto> ''BFPO 105'', ''Loc'' \<mapsto> ''Celle'',
                              ''PstCd'' \<mapsto> ''BF1 0AX'', ''Ctry'' \<mapsto> ''Germany'',
                              ''CtryCd'' \<mapsto> ''DE'', ''Type'' \<mapsto> ''detachment'',
                              ''BoxNum'' \<mapsto> ''12'']],
            stdout = [section_warning Germany, section_warning UK, section_warning Europe,
                      section_warning World, section_warning Ships, section_warning NavalParties,
                      section_warning Operations, section_warning Exercises,
                      ErrorDownloading OtherException, SkippingFcdo]\<rparr>,
          Element ''Config'' None
            [Comment (header_comment ''2025-01-01''),
             Element ''BFFO_Address'' None
               [Element ''BfpoNum'' (Some ''BFPO 105'') [],
                Element ''BoxNum'' (Some ''12'') [],
                Element ''Loc'' (Some ''Celle'') [],
                Element ''PstCd'' (Some ''BF1 0AX'') [],
                Element ''Ctry'' (Some ''Germany'') [],
                Element ''CtryCd'' (Some ''DE'') [],
                Element ''Type'' (Some ''detachment'') []]])
   \<and> list_all box_rule
        [[''BfpoNum'' \<mapsto> ''BFPO 105'', ''Loc'' \<mapsto> ''Celle'',
          ''PstCd'' \<mapsto> ''BF1 0AX'', ''Ctry'' \<mapsto> ''Germany'',
          ''CtryCd'' \<mapsto> ''DE'', ''Type'' \<mapsto> ''detachment'', ''BoxNum'' \<mapsto> ''12'']]"
proof -
  have h: "run (no_sections_env\<lparr>gov_uk_page := Inr (only_section IsolatedDetachments
           [[''Location'', ''Box number''], [''Celle'', ''12'']])\<rparr>)
   = Inr (\<lparr>addresses = [[''BfpoNum'' \<mapsto> ''BFPO 105'', ''Loc'' \<mapsto> ''Celle'',
                              ''PstCd'' \<mapsto> ''BF1 0AX'', ''Ctry'' \<mapsto> ''Germany'',
                              ''CtryCd'' \<mapsto> ''DE'', ''Type'' \<mapsto> ''detachment'',
                              ''BoxNum'' \<mapsto> ''12'']],
            stdout = [section_warning Germany, section_warning UK, section_warning Europe,
                      section_warning World, section_warning Ships, section_warning NavalParties,
                      section_warning Operations, section_warning Exercises,
                      ErrorDownloading OtherException, SkippingFcdo]\<rparr>,
          Element ''Config'' None
            [Comment (header_comment ''2025-01-01''),
             Element ''BFFO_Address'' None
               [Element ''BfpoNum'' (Some ''BFPO 105'') [],
                Element ''BoxNum'' (Some ''12'') [],
                Element ''Loc'' (Some ''Celle'') [],
                Element ''PstCd'' (Some ''BF1 0AX'') [],
                Element ''Ctry'' (Some ''Germany'') [],
                Element ''CtryCd'' (Some ''DE'') [],
                Element ''Type'' (Some ''detachment'') []]])"
    by (simp add: run_def no_sections_env_def parser_defs only_section_def init_scraper_def
          detachment_address [OF germany_sample] handle_fcdo_def download_fcdo_ods_def
          generate_xml_def sort_defs address_element_def field_def writer_defs)
  from box_numbers_only_on_detachments
         [of "no_sections_env\<lparr>gov_uk_page := Inr (only_section IsolatedDetachments
           [[''Location'', ''Box number''], [''Celle'', ''12'']])\<rparr>"
             "\<lparr>addresses = [[''BfpoNum'' \<mapsto> ''BFPO 105'', ''Loc'' \<mapsto> ''Celle'',
                              ''PstCd'' \<mapsto> ''BF1 0AX'', ''Ctry'' \<mapsto> ''Germany'',
                              ''CtryCd'' \<mapsto> ''DE'', ''Type'' \<mapsto> ''detachment'',
                              ''BoxNum'' \<mapsto> ''12'']],
            stdout = [section_warning Germany, section_warning UK, section_warning Europe,
                      section_warning World, section_warning Ships, section_warning NavalParties,
                      section_warning Operations, section_warning Exercises,
                      ErrorDownloading OtherException, SkippingFcdo]\<rparr>"] h
  have "list_all box_rule
        [[''BfpoNum'' \<mapsto> ''BFPO 105'', ''Loc'' \<mapsto> ''Celle'',
          ''PstCd'' \<mapsto> ''BF1 0AX'', ''Ctry'' \<mapsto> ''Germany'',
          ''CtryCd'' \<mapsto> ''DE'', ''Type'' \<mapsto> ''detachment'', ''BoxNum'' \<mapsto> ''12'']]"
    by (simp only: scraper.simps)
  with h show ?thesis by (rule conjI)
qed

text \<open>
  Scraping a page whose detachment table has a row with an empty box-number cell: the
  record is a detachment and has no \<open>BoxNum\<close>.
\<close>

theorem detachment_without_box_counterexample:
  "scrape_gov_uk_bfpo sample_pycountry
     (Inr (only_section IsolatedDetachments [[''Location'', ''Box number''], [''Celle'', []]]))
     init_scraper
   = Inr \<lparr>addresses = [[''BfpoNum'' \<mapsto> ''BFPO 105'', ''Loc'' \<mapsto> ''Celle'',
                            ''PstCd'' \<mapsto> ''BF1 0AX'', ''Ctry'' \<mapsto> ''Germany'',
                            ''CtryCd'' \<mapsto> ''DE'', ''Type'' \<mapsto> ''detachment'']],
          stdout = [section_warning Germany, section_warning UK, section_warning Europe,
                    section_warning World, section_warning Ships, section_warning NavalParties,
                    section_warning Operations, section_warning Exercises]\<rparr>
   \<and> [''BfpoNum'' \<mapsto> ''BFPO 105'', ''Loc'' \<mapsto> ''Celle'', ''PstCd'' \<mapsto> ''BF1 0AX'',
       ''Ctry'' \<mapsto> ''Germany'', ''CtryCd'' \<mapsto> ''DE'', ''Type'' \<mapsto> ''detachment''] ''Type''
     = Some ''detachment''
   \<and> [''BfpoNum'' \<mapsto> ''BFPO 105'', ''Loc'' \<mapsto> ''Celle'', ''PstCd'' \<mapsto> ''BF1 0AX'',
       ''Ctry'' \<mapsto> ''Germany'', ''CtryCd'' \<mapsto> ''DE'', ''Type'' \<mapsto> ''detachment''] ''BoxNum''
     = None"
  by (simp add: parser_defs only_section_def init_scraper_def detachment_address [OF germany_sample])


section \<open>When a run is aborted\<close>














text \<open>
  The document generation is outside every \<open>try\<close>: a ship whose number is a superscript
  two passes \<open>isdigit\<close> and is refused by \<open>int\<close>, and a location with a control character
  is refused by the XML parser; a file that cannot be written aborts the run as well.
\<close>

lemma run_superscript_number:
  "run (one_ship_env [CHR 0xB2]) = Inl ValueError"
  by (simp add: run_def one_ship_env_def no_sections_env_def parser_defs only_section_def
        init_scraper_def add_address_no_country prefix_bfpo_def str_defs set_if_def
        handle_fcdo_def download_fcdo_ods_def generate_xml_def sort_defs)

lemma run_no_break_space_number:
  "\<exists>st doc. run (one_ship_env (''15'' @ [CHR 0xA0])) = Inr (st, doc)
     \<and> map key_of (addresses st) = [15]"
  by (simp add: run_def one_ship_env_def no_sections_env_def parser_defs only_section_def
        init_scraper_def add_address_no_country prefix_bfpo_def str_defs set_if_def
        handle_fcdo_def download_fcdo_ods_def generate_xml_def sort_defs address_element_def
        field_def writer_defs key_of_def)

lemma run_control_character:
  "run (no_sections_env\<lparr>gov_uk_page := Inr (only_section Ships
          [[''Ship'', ''BFPO number'', ''Postcode''], [''HMS'' @ [CHR 0x01], ''204'', ''BF1 4AA'']])\<rparr>)
   = Inl ExpatError"
  by (simp add: run_def no_sections_env_def parser_defs only_section_def
        init_scraper_def add_address_no_country prefix_bfpo_def str_defs set_if_def
        handle_fcdo_def download_fcdo_ods_def generate_xml_def sort_defs address_element_def
        field_def writer_defs)

lemma run_file_not_written:
  "run (no_sections_env\<lparr>write_file := Some OtherException\<rparr>) = Inl OtherException"
  by (simp add: run_def no_sections_env_def no_sections_def parser_defs init_scraper_def
        handle_fcdo_def download_fcdo_ods_def generate_xml_def sort_addresses_def writer_defs)




end
